theory Spec2Isabelle
  imports Complex_Main "HOL-Library.Word"
begin

section \<open>Python values\<close>

text \<open>
  The program is \<^verbatim>\<open>flojoy/flojoy_cloud.py\<close>: a client that builds JSON payloads for typed
  "data containers", validates decoded responses with pydantic models, and converts
  them to pandas, PIL and float values.

  A Python \<^verbatim>\<open>float\<close> is kept abstract as the type variable \<open>'f\<close>: the program never
  computes on floats, it only passes them on. An object of a library class that the
  program only hands to the library (a pandas DataFrame, a PIL image, a stacked array)
  is kept abstract as \<open>'o\<close>.
\<close>

text \<open>
  What \<^verbatim>\<open>json.loads\<close> returns: \<^verbatim>\<open>None\<close>, \<^verbatim>\<open>bool\<close>, \<^verbatim>\<open>int\<close>, \<^verbatim>\<open>float\<close>, \<^verbatim>\<open>str\<close>,
  \<^verbatim>\<open>list\<close> and \<^verbatim>\<open>dict\<close> with string keys. A dict is an association list in insertion
  order; a key is looked up with \<open>map_of\<close>.
\<close>

datatype 'f json =
    JNull
  | JBool bool
  | JInt int
  | JFloat 'f
  | JStr string
  | JList "'f json list"
  | JDict "(string \<times> 'f json) list"

text \<open>
  A numpy fixed-width integer scalar (\<^verbatim>\<open>np.integer\<close>): its width and signedness and its
  bits. \<^verbatim>\<open>int(obj)\<close> reads the bits as that type does.
\<close>

datatype npint =
    Int8 "8 word" | Int16 "16 word" | Int32 "32 word" | Int64 "64 word"
  | UInt8 "8 word" | UInt16 "16 word" | UInt32 "32 word" | UInt64 "64 word"

fun py_int :: "npint \<Rightarrow> int" where
  "py_int (Int8 w) = sint w"
| "py_int (Int16 w) = sint w"
| "py_int (Int32 w) = sint w"
| "py_int (Int64 w) = sint w"
| "py_int (UInt8 w) = uint w"
| "py_int (UInt16 w) = uint w"
| "py_int (UInt32 w) = uint w"
| "py_int (UInt64 w) = uint w"

text \<open>
  An element of a numeric \<^verbatim>\<open>np.ndarray\<close>: an integer of the array's integer dtype, a
  float (given by its value, which \<^verbatim>\<open>float64\<close> holds exactly for the 16-, 32- and
  64-bit float dtypes) or a \<^verbatim>\<open>bool\<close>.
\<close>

datatype 'f npelem = EInt npint | EFloat 'f | EBool bool

text \<open>
  The values \<^verbatim>\<open>create_payload\<close> receives. \<open>NdArray shape buf\<close> is an n-dimensional array:
  its shape and its elements in row-major (C) order, so \<open>length buf = prod_list shape\<close>.
  \<open>NpFloat64\<close> is an \<^verbatim>\<open>np.float64\<close> scalar, which is an \<^verbatim>\<open>np.floating\<close> and a Python
  \<^verbatim>\<open>float\<close> at once; \<open>NpFloating\<close> is an \<^verbatim>\<open>np.floating\<close> scalar of another width, which
  is no \<^verbatim>\<open>float\<close>; both are given by their value. \<open>PObject\<close> is an object of any other
  class. The keys of a dict are strings, as JSON has them.
\<close>

datatype ('f, 'o) pyval =
    PNone
  | PBool bool
  | PInt int
  | PFloat 'f
  | PStr string
  | PList "('f, 'o) pyval list"
  | PTuple "('f, 'o) pyval list"
  | PDict "(string \<times> ('f, 'o) pyval) list"
  | NpInteger npint
  | NpFloat64 'f
  | NpFloating 'f
  | NdArray "nat list" "'f npelem list"
  | PObject 'o

text \<open>
  Exceptions. An \<open>AssertionError\<close> carries the message of the \<^verbatim>\<open>assert\<close>, a \<open>KeyError\<close>
  the key, an \<open>AttributeError\<close> the attribute. \<open>ValidationError\<close> is pydantic's: the
  list of the fields that failed, each with the exception that pydantic wrapped.
  \<open>MissingError\<close>, \<open>NoneIsNotAllowedError\<close>, \<open>StrError\<close> and \<open>DictError\<close> are pydantic's
  own field errors. \<open>OtherError\<close> is any other exception, raised by a library call.
\<close>

datatype pyexc =
    AssertionError string
  | TypeError
  | KeyError string
  | IndexError
  | ValueError
  | AttributeError string
  | UnboundLocalError string
  | RecursionError
  | MissingError
  | NoneIsNotAllowedError
  | StrError
  | DictError
  | ValidationError "(string \<times> pyexc) list"
  | OtherError string

text \<open>Sequencing of calls that may raise: the first exception ends the computation.\<close>

fun ebind :: "'e + 'a \<Rightarrow> ('a \<Rightarrow> 'e + 'b) \<Rightarrow> 'e + 'b" where
  "ebind (Inl e) f = Inl e"
| "ebind (Inr x) f = f x"

section \<open>numpy arrays\<close>

definition wf_ndarray :: "nat list \<Rightarrow> 'a list \<Rightarrow> bool" where
  "wf_ndarray shape buf = (length buf = prod_list shape)"

text \<open>\<^verbatim>\<open>ndarray.item\<close>: an element as a Python scalar.\<close>

fun item :: "'f npelem \<Rightarrow> ('f, 'o) pyval" where
  "item (EInt i) = PInt (py_int i)"
| "item (EFloat x) = PFloat x"
| "item (EBool b) = PBool b"

text \<open>
  \<^verbatim>\<open>ndarray.tolist()\<close>: a 0-dimensional array gives its element; an array of shape
  \<open>n # shape\<close> gives the list of its \<open>n\<close> sub-arrays, each the next
  \<open>prod_list shape\<close> elements of the buffer. (The empty buffer of a 0-dimensional
  array does not occur: \<open>wf_ndarray\<close>.)
\<close>

fun tolist :: "nat list \<Rightarrow> 'f npelem list \<Rightarrow> ('f, 'o) pyval" where
  "tolist [] [] = PNone"
| "tolist [] (x # buf) = item x"
| "tolist (n # shape) buf =
     PList (map (\<lambda>i. tolist shape (take (prod_list shape) (drop (i * prod_list shape) buf)))
              [0..<n])"

text \<open>
  Basic indexing \<^verbatim>\<open>arr[:, :, k]\<close>: \<^verbatim>\<open>IndexError\<close> when the array has fewer than three
  dimensions or \<open>k\<close> is not below the size of axis 2; otherwise the array without axis 2,
  holding the elements whose index on axis 2 is \<open>k\<close>.
\<close>

fun index_axis2 :: "nat list \<times> 'a list \<Rightarrow> nat \<Rightarrow> pyexc + (nat list \<times> 'a list)" where
  "index_axis2 (d0 # d1 # d2 # rest, buf) k =
     (if k < d2
      then Inr (d0 # d1 # rest,
             concat (map (\<lambda>p. take (prod_list rest) (drop ((p * d2 + k) * prod_list rest) buf))
                       [0..<d0 * d1]))
      else Inl IndexError)"
| "index_axis2 (shape, buf) k = Inl IndexError"

section \<open>The JSON encoder\<close>

text \<open>
  \<^verbatim>\<open>json.JSONEncoder.default\<close> raises \<^verbatim>\<open>TypeError\<close>.
  \<^verbatim>\<open>
  class NumpyEncoder(json.JSONEncoder):
      def default(self, obj):
          if isinstance(obj, np.integer):
              return int(obj)
          elif isinstance(obj, np.floating):
              return float(obj)
          elif isinstance(obj, np.ndarray):
              return obj.tolist()
          return json.JSONEncoder.default(self, obj)
  \<close>
\<close>

definition JSONEncoder_default :: "('f, 'o) pyval \<Rightarrow> pyexc + ('f, 'o) pyval" where
  "JSONEncoder_default obj = Inl TypeError"

fun NumpyEncoder_default :: "('f, 'o) pyval \<Rightarrow> pyexc + ('f, 'o) pyval" where
  "NumpyEncoder_default (NpInteger i) = Inr (PInt (py_int i))"
| "NumpyEncoder_default (NpFloat64 x) = Inr (PFloat x)"
| "NumpyEncoder_default (NpFloating x) = Inr (PFloat x)"
| "NumpyEncoder_default (NdArray shape buf) = Inr (tolist shape buf)"
| "NumpyEncoder_default obj = JSONEncoder_default obj"

text \<open>
  \<^verbatim>\<open>json.dumps(obj, cls=...)\<close>, given by the JSON value that the text it writes denotes
  (what \<^verbatim>\<open>json.loads\<close> reads back from it). A \<^verbatim>\<open>None\<close>, \<^verbatim>\<open>bool\<close>, \<^verbatim>\<open>int\<close>, \<^verbatim>\<open>float\<close> (an
  \<^verbatim>\<open>np.float64\<close> is one) or \<^verbatim>\<open>str\<close> is written as it is, a list or a tuple as an array,
  a dict as an object, and any other object is passed to the encoder's \<^verbatim>\<open>default\<close>,
  whose result is encoded in its place. Every container and every call of \<^verbatim>\<open>default\<close> takes one level of the
  interpreter's recursion depth: the first argument is the depth that is left, and
  \<^verbatim>\<open>RecursionError\<close> is raised when it is used up.
\<close>

fun iterencode ::
    "nat \<Rightarrow> (('f, 'o) pyval \<Rightarrow> pyexc + ('f, 'o) pyval) \<Rightarrow> ('f, 'o) pyval \<Rightarrow> pyexc + 'f json"
  and iterencode_list ::
    "nat \<Rightarrow> (('f, 'o) pyval \<Rightarrow> pyexc + ('f, 'o) pyval) \<Rightarrow> ('f, 'o) pyval list
      \<Rightarrow> pyexc + 'f json list"
  and iterencode_dict ::
    "nat \<Rightarrow> (('f, 'o) pyval \<Rightarrow> pyexc + ('f, 'o) pyval) \<Rightarrow> (string \<times> ('f, 'o) pyval) list
      \<Rightarrow> pyexc + (string \<times> 'f json) list"
where
  "iterencode n dflt PNone = Inr JNull"
| "iterencode n dflt (PBool b) = Inr (JBool b)"
| "iterencode n dflt (PInt i) = Inr (JInt i)"
| "iterencode n dflt (PFloat x) = Inr (JFloat x)"
| "iterencode n dflt (PStr s) = Inr (JStr s)"
| "iterencode n dflt (NpFloat64 x) = Inr (JFloat x)"
| "iterencode 0 dflt obj = Inl RecursionError"
| "iterencode (Suc n) dflt (PList xs) = ebind (iterencode_list n dflt xs) (\<lambda>js. Inr (JList js))"
| "iterencode (Suc n) dflt (PTuple xs) = ebind (iterencode_list n dflt xs) (\<lambda>js. Inr (JList js))"
| "iterencode (Suc n) dflt (PDict kvs) = ebind (iterencode_dict n dflt kvs) (\<lambda>js. Inr (JDict js))"
| "iterencode (Suc n) dflt obj = ebind (dflt obj) (\<lambda>v. iterencode n dflt v)"
| "iterencode_list n dflt [] = Inr []"
| "iterencode_list n dflt (x # xs) =
     ebind (iterencode n dflt x) (\<lambda>j. ebind (iterencode_list n dflt xs) (\<lambda>js. Inr (j # js)))"
| "iterencode_dict n dflt [] = Inr []"
| "iterencode_dict n dflt ((k, v) # kvs) =
     ebind (iterencode n dflt v) (\<lambda>j. ebind (iterencode_dict n dflt kvs) (\<lambda>js. Inr ((k, j) # js)))"

section \<open>The libraries\<close>

text \<open>
  The program calls pandas, PIL, numpy, the HTTP client and Python built-ins whose
  results depend on code that is not the program's. They are parameters:
  \<^item> \<open>recursion_depth\<close>: the recursion depth the interpreter has left for \<^verbatim>\<open>json.dumps\<close>;
  \<^item> \<open>to_json\<close>: the method \<^verbatim>\<open>to_json()\<close> of an object (of a DataFrame: its JSON text);
  \<^item> \<open>asarray\<close>: \<^verbatim>\<open>np.asarray\<close> of a value that is not an array yet (an image, nested lists);
  \<^item> \<open>py_dict\<close>: \<^verbatim>\<open>dict(v)\<close> of a value that is not a dict, \<open>None\<close> when it raises
    \<^verbatim>\<open>TypeError\<close> or \<^verbatim>\<open>ValueError\<close>;
  \<^item> \<open>float_of_int\<close>, \<open>float_of_str\<close>: \<^verbatim>\<open>float(v)\<close> of an \<^verbatim>\<open>int\<close> and of a \<^verbatim>\<open>str\<close>;
  \<^item> \<open>DataFrame_of\<close>: \<^verbatim>\<open>pd.DataFrame(data)\<close> of a list, a dict or \<^verbatim>\<open>None\<close>;
    \<open>drop_columns\<close>: \<^verbatim>\<open>df.drop(columns=...)\<close>;
  \<^item> \<open>stack_axis2\<close>: \<^verbatim>\<open>np.stack(arrays, axis=2)\<close> of arrays that may have one shape;
    \<open>np_uint8\<close>: \<^verbatim>\<open>np.uint8(array)\<close>;
  \<^item> \<open>Image_fromarray\<close>, \<open>Image_convert\<close>: \<^verbatim>\<open>PIL.Image.fromarray\<close> and \<^verbatim>\<open>Image.convert\<close>;
  \<^item> \<open>request_get\<close>: the text of the response to \<^verbatim>\<open>requests.request("GET", url, ...)\<close>;
  \<^item> \<open>json_loads\<close>: \<^verbatim>\<open>json.loads\<close>.
\<close>

record ('f, 'o) pylib =
  recursion_depth :: nat
  to_json :: "'o \<Rightarrow> pyexc + ('f, 'o) pyval"
  asarray :: "('f, 'o) pyval \<Rightarrow> pyexc + (nat list \<times> 'f npelem list)"
  py_dict :: "'f json \<Rightarrow> (string \<times> 'f json) list option"
  float_of_int :: "int \<Rightarrow> pyexc + 'f"
  float_of_str :: "string \<Rightarrow> pyexc + 'f"
  DataFrame_of :: "'f json \<Rightarrow> pyexc + 'o"
  drop_columns :: "'o \<Rightarrow> string list \<Rightarrow> pyexc + 'o"
  stack_axis2 :: "'f json list \<Rightarrow> pyexc + 'o"
  np_uint8 :: "'o \<Rightarrow> pyexc + 'o"
  Image_fromarray :: "'o \<Rightarrow> pyexc + 'o"
  Image_convert :: "'o \<Rightarrow> string \<Rightarrow> pyexc + 'o"
  request_get :: "string \<Rightarrow> pyexc + string"
  json_loads :: "string \<Rightarrow> pyexc + 'f json"

section \<open>Python operations on decoded values\<close>

text \<open>\<^verbatim>\<open>d[key]\<close> on a dict raises \<^verbatim>\<open>KeyError\<close> when the key is missing.\<close>

definition getitem :: "(string \<times> 'a) list \<Rightarrow> string \<Rightarrow> pyexc + 'a" where
  "getitem d k = (case map_of d k of None \<Rightarrow> Inl (KeyError k) | Some v \<Rightarrow> Inr v)"

text \<open>
  \<^verbatim>\<open>v[key]\<close> with a string key on a decoded value: only a dict has string keys (a list,
  a string and the scalars raise \<^verbatim>\<open>TypeError\<close>).
\<close>

fun subscript :: "'f json \<Rightarrow> string \<Rightarrow> pyexc + 'f json" where
  "subscript (JDict d) k = getitem d k"
| "subscript v k = Inl TypeError"

text \<open>\<^verbatim>\<open>key in d\<close> on a dict.\<close>

definition contains :: "string \<Rightarrow> (string \<times> 'a) list \<Rightarrow> bool" where
  "contains k d = (map_of d k \<noteq> None)"

text \<open>\<^verbatim>\<open>isinstance\<close>: a \<^verbatim>\<open>bool\<close> is an \<^verbatim>\<open>int\<close> in Python.\<close>

fun isinstance_list :: "'f json \<Rightarrow> bool" where
  "isinstance_list (JList xs) = True"
| "isinstance_list v = False"

fun isinstance_dict :: "'f json \<Rightarrow> bool" where
  "isinstance_dict (JDict d) = True"
| "isinstance_dict v = False"

fun isinstance_float :: "'f json \<Rightarrow> bool" where
  "isinstance_float (JFloat x) = True"
| "isinstance_float v = False"

fun isinstance_int :: "'f json \<Rightarrow> bool" where
  "isinstance_int (JInt i) = True"
| "isinstance_int (JBool b) = True"
| "isinstance_int v = False"

text \<open>\<^verbatim>\<open>str(type(v))\<close>, as an f-string prints it.\<close>

fun type_repr :: "'f json \<Rightarrow> string" where
  "type_repr JNull = ''<class 'NoneType'>''"
| "type_repr (JBool b) = ''<class 'bool'>''"
| "type_repr (JInt i) = ''<class 'int'>''"
| "type_repr (JFloat x) = ''<class 'float'>''"
| "type_repr (JStr s) = ''<class 'str'>''"
| "type_repr (JList xs) = ''<class 'list'>''"
| "type_repr (JDict d) = ''<class 'dict'>''"

text \<open>\<^verbatim>\<open>assert cond, msg\<close>, with assertions enabled (Python's default).\<close>

definition py_assert :: "bool \<Rightarrow> string \<Rightarrow> pyexc + unit" where
  "py_assert cond msg = (if cond then Inr () else Inl (AssertionError msg))"

text \<open>Statements in sequence: the first that raises ends the block.\<close>

fun in_sequence :: "(pyexc + unit) list \<Rightarrow> pyexc + unit" where
  "in_sequence [] = Inr ()"
| "in_sequence (Inl e # rest) = Inl e"
| "in_sequence (Inr u # rest) = in_sequence rest"

section \<open>The container kinds and their validators\<close>

datatype kind = OrderedPair | OrderedTriple | DataFrame | Matrix | Grayscale | Scalar | Image

fun kind_name :: "kind \<Rightarrow> string" where
  "kind_name OrderedPair = ''OrderedPair''"
| "kind_name OrderedTriple = ''OrderedTriple''"
| "kind_name DataFrame = ''DataFrame''"
| "kind_name Matrix = ''Matrix''"
| "kind_name Grayscale = ''Grayscale''"
| "kind_name Scalar = ''Scalar''"
| "kind_name Image = ''Image''"

text \<open>
  Each model \<open>k\<close> (\<^verbatim>\<open>OrderedPairModel\<close>, ..., \<^verbatim>\<open>ImageModel\<close>) has the validator
  \<^verbatim>\<open>
  @validator("dataContainer")
  def type_must_match(cls, dc):
      assert dc["type"] == "<k>", "dataContainer type does not match."
      return dc
  \<close>
\<close>

definition type_must_match :: "kind \<Rightarrow> (string \<times> 'f json) list \<Rightarrow> pyexc + (string \<times> 'f json) list" where
  "type_must_match k dc =
     ebind (getitem dc ''type'') (\<lambda>t.
     ebind (py_assert (t = JStr (kind_name k)) ''dataContainer type does not match.'') (\<lambda>_.
     Inr dc))"

text \<open>
  The two kinds of \<^verbatim>\<open>assert\<close> that the \<^verbatim>\<open>keys_must_match\<close> validators repeat:
  \<^verbatim>\<open>assert "x" in dc, 'dataContainer does not contain "x" dataset.'\<close> and
  \<^verbatim>\<open>assert isinstance(dc["x"], list), '"x" dataset is not a list'\<close>.
\<close>

definition assert_in :: "string \<Rightarrow> (string \<times> 'f json) list \<Rightarrow> pyexc + unit" where
  "assert_in key dc =
     py_assert (contains key dc) (''dataContainer does not contain \"'' @ key @ ''\" dataset.'')"

definition assert_list :: "string \<Rightarrow> (string \<times> 'f json) list \<Rightarrow> pyexc + unit" where
  "assert_list key dc =
     ebind (getitem dc key) (\<lambda>v.
     py_assert (isinstance_list v) (''\"'' @ key @ ''\" dataset is not a list''))"

text \<open>
  \<^verbatim>\<open>keys_must_match\<close> of each model. \<^verbatim>\<open>DataFrameModel\<close> asserts
  \<^verbatim>\<open>isinstance(dc["m"], dict)\<close> with the message
  \<^verbatim>\<open>f'"m" dataset is not a list, type: {type(dc["m"])}'\<close>, and \<^verbatim>\<open>ScalarModel\<close> asserts
  \<^verbatim>\<open>isinstance(dc["c"], float) or isinstance(dc["c"], int)\<close> with the message
  \<^verbatim>\<open>'"c" dataset is not a float or int'\<close>.
\<close>

fun keys_must_match :: "kind \<Rightarrow> (string \<times> 'f json) list \<Rightarrow> pyexc + (string \<times> 'f json) list" where
  "keys_must_match OrderedPair dc =
     ebind (in_sequence
       [assert_in ''x'' dc, assert_in ''y'' dc, assert_list ''x'' dc, assert_list ''y'' dc])
       (\<lambda>_. Inr dc)"
| "keys_must_match OrderedTriple dc =
     ebind (in_sequence
       [assert_in ''x'' dc, assert_in ''y'' dc, assert_in ''z'' dc,
        assert_list ''x'' dc, assert_list ''y'' dc, assert_list ''z'' dc])
       (\<lambda>_. Inr dc)"
| "keys_must_match DataFrame dc =
     ebind (in_sequence
       [assert_in ''m'' dc,
        ebind (getitem dc ''m'') (\<lambda>m.
          py_assert (isinstance_dict m) (''\"m\" dataset is not a list, type: '' @ type_repr m))])
       (\<lambda>_. Inr dc)"
| "keys_must_match Matrix dc =
     ebind (in_sequence [assert_in ''m'' dc, assert_list ''m'' dc]) (\<lambda>_. Inr dc)"
| "keys_must_match Grayscale dc =
     ebind (in_sequence [assert_in ''m'' dc, assert_list ''m'' dc]) (\<lambda>_. Inr dc)"
| "keys_must_match Scalar dc =
     ebind (in_sequence
       [assert_in ''c'' dc,
        ebind (getitem dc ''c'') (\<lambda>c.
          py_assert (isinstance_float c \<or> isinstance_int c) ''\"c\" dataset is not a float or int'')])
       (\<lambda>_. Inr dc)"
| "keys_must_match Image dc =
     ebind (in_sequence
       [assert_in ''r'' dc, assert_in ''g'' dc, assert_in ''b'' dc,
        assert_list ''r'' dc, assert_list ''g'' dc, assert_list ''b'' dc])
       (\<lambda>_. Inr dc)"

section \<open>pydantic models\<close>

text \<open>
  pydantic (version 1) validates the fields of a model in the order of their
  declaration and collects one error per field that fails. For a field: a missing key
  is \<open>MissingError\<close>, \<^verbatim>\<open>None\<close> is \<open>NoneIsNotAllowedError\<close>, then the validator of the
  field's type runs, then the class validators in the order of their definition, the
  first failure ending the field. Of what a validator raises, only \<^verbatim>\<open>ValueError\<close>,
  \<^verbatim>\<open>TypeError\<close> and \<^verbatim>\<open>AssertionError\<close> become the field's error; anything else (a
  \<^verbatim>\<open>KeyError\<close>) leaves the validation as it is.
\<close>

fun field_error :: "pyexc \<Rightarrow> bool" where
  "field_error (AssertionError msg) = True"
| "field_error TypeError = True"
| "field_error ValueError = True"
| "field_error StrError = True"
| "field_error DictError = True"
| "field_error e = False"

fun apply_validators ::
    "((string \<times> 'f json) list \<Rightarrow> pyexc + (string \<times> 'f json) list) list
      \<Rightarrow> (string \<times> 'f json) list \<Rightarrow> pyexc + pyexc option" where
  "apply_validators [] v = Inr None"
| "apply_validators (validator # rest) v =
     (case validator v of
        Inr v' \<Rightarrow> apply_validators rest v'
      | Inl e \<Rightarrow> if field_error e then Inr (Some e) else Inl e)"

text \<open>
  A field of type \<^verbatim>\<open>str\<close> takes a \<^verbatim>\<open>str\<close> and coerces an \<^verbatim>\<open>int\<close> or a \<^verbatim>\<open>float\<close>; a field
  of type \<^verbatim>\<open>dict\<close> takes a dict and whatever \<^verbatim>\<open>dict(v)\<close> accepts.
\<close>

fun str_validator :: "'f json \<Rightarrow> pyexc option" where
  "str_validator (JStr s) = None"
| "str_validator (JInt i) = None"
| "str_validator (JBool b) = None"
| "str_validator (JFloat x) = None"
| "str_validator v = Some StrError"

definition dict_validator :: "('f, 'o) pylib \<Rightarrow> 'f json \<Rightarrow> pyexc + (string \<times> 'f json) list" where
  "dict_validator L v =
     (case v of
        JDict d \<Rightarrow> Inr d
      | _ \<Rightarrow> (case py_dict L v of Some d \<Rightarrow> Inr d | None \<Rightarrow> Inl DictError))"

text \<open>
  The fields of \<^verbatim>\<open>DefaultModel\<close>, which every model inherits:
  \<^verbatim>\<open>
  ref: str
  dataContainer: dict
  metadata: dict
  workspaceId: str
  privacy: str
  location: str
  note: str
  \<close>
  Each model adds \<^verbatim>\<open>data: Optional[DataC]\<close>, which takes every value and may be missing,
  and the two validators of \<^verbatim>\<open>dataContainer\<close>.
\<close>

datatype field_type = StrField | DictField

definition DefaultModel_fields :: "(string \<times> field_type) list" where
  "DefaultModel_fields =
     [(''ref'', StrField), (''dataContainer'', DictField), (''metadata'', DictField),
      (''workspaceId'', StrField), (''privacy'', StrField), (''location'', StrField),
      (''note'', StrField)]"

definition class_validators ::
    "kind \<Rightarrow> string \<Rightarrow> ((string \<times> 'f json) list \<Rightarrow> pyexc + (string \<times> 'f json) list) list" where
  "class_validators k name =
     (if name = ''dataContainer'' then [type_must_match k, keys_must_match k] else [])"

text \<open>The error of one field, if any; \<open>Inl\<close> when a validator raises past pydantic.\<close>

definition validate_field ::
    "('f, 'o) pylib \<Rightarrow> kind \<Rightarrow> string \<Rightarrow> field_type \<Rightarrow> 'f json option \<Rightarrow> pyexc + pyexc option" where
  "validate_field L k name ft value =
     (case value of
        None \<Rightarrow> Inr (Some MissingError)
      | Some JNull \<Rightarrow> Inr (Some NoneIsNotAllowedError)
      | Some v \<Rightarrow>
          (case ft of
             StrField \<Rightarrow> Inr (str_validator v)
           | DictField \<Rightarrow>
               (case dict_validator L v of
                  Inl e \<Rightarrow> Inr (Some e)
                | Inr d \<Rightarrow> apply_validators (class_validators k name) d)))"

fun validate_fields ::
    "('f, 'o) pylib \<Rightarrow> kind \<Rightarrow> (string \<times> field_type) list \<Rightarrow> (string \<times> 'f json) list
      \<Rightarrow> pyexc + (string \<times> pyexc) list" where
  "validate_fields L k [] input = Inr []"
| "validate_fields L k ((name, ft) # rest) input =
     ebind (validate_field L k name ft (map_of input name)) (\<lambda>r.
     ebind (validate_fields L k rest input) (\<lambda>errors.
     Inr (case r of None \<Rightarrow> errors | Some e \<Rightarrow> (name, e) # errors)))"

text \<open>
  \<^verbatim>\<open>Model.parse_obj(obj)\<close> for the model of kind \<open>k\<close>: \<^verbatim>\<open>ValidationError\<close> with the
  errors of the fields when there are any. The model instance is only built to be
  validated (\<^verbatim>\<open>check_deserialize\<close> drops it), so the result on success is \<open>()\<close>.
\<close>

definition parse_obj :: "('f, 'o) pylib \<Rightarrow> kind \<Rightarrow> 'f json \<Rightarrow> pyexc + unit" where
  "parse_obj L k obj =
     (case (case obj of JDict d \<Rightarrow> Some d | _ \<Rightarrow> py_dict L obj) of
        None \<Rightarrow> Inl (ValidationError [(''__root__'', TypeError)])
      | Some input \<Rightarrow>
          ebind (validate_fields L k DefaultModel_fields input) (\<lambda>errors.
          if errors = [] then Inr () else Inl (ValidationError errors)))"

section \<open>Reading: check_deserialize and fetch_dc\<close>

text \<open>
  What a call does besides returning: the calls of \<^verbatim>\<open>parse_obj\<close> and the lines printed.
\<close>

datatype event = CallParseObj kind | PrintException pyexc | PrintText string

text \<open>
  The \<^verbatim>\<open>match dc_type\<close> of \<^verbatim>\<open>check_deserialize\<close>: the case whose literal equals the tag,
  if there is one.
\<close>

definition match_kind :: "'f json \<Rightarrow> kind option" where
  "match_kind dc_type =
     (if dc_type = JStr ''OrderedPair'' then Some OrderedPair
      else if dc_type = JStr ''OrderedTriple'' then Some OrderedTriple
      else if dc_type = JStr ''DataFrame'' then Some DataFrame
      else if dc_type = JStr ''Matrix'' then Some Matrix
      else if dc_type = JStr ''Grayscale'' then Some Grayscale
      else if dc_type = JStr ''Scalar'' then Some Scalar
      else if dc_type = JStr ''Image'' then Some Image
      else None)"

text \<open>
  \<^verbatim>\<open>
  def check_deserialize(response):
      dc_type = response["dataContainer"]["type"]
      match dc_type:
          case "OrderedPair":
              try:
                  OrderedPairModel.parse_obj(response)
              except ValidationError as e:
                  print(e)
          ...
  \<close>
  and the same for the six other kinds.
\<close>

definition check_deserialize :: "('f, 'o) pylib \<Rightarrow> 'f json \<Rightarrow> event list \<times> (pyexc + unit)" where
  "check_deserialize L response =
     (case ebind (subscript response ''dataContainer'') (\<lambda>dc. subscript dc ''type'') of
        Inl e \<Rightarrow> ([], Inl e)
      | Inr dc_type \<Rightarrow>
          (case match_kind dc_type of
             None \<Rightarrow> ([], Inr ())
           | Some k \<Rightarrow>
               (case parse_obj L k response of
                  Inr m \<Rightarrow> ([CallParseObj k], Inr ())
                | Inl (ValidationError errors) \<Rightarrow>
                    ([CallParseObj k, PrintException (ValidationError errors)], Inr ())
                | Inl e \<Rightarrow> ([CallParseObj k], Inl e))))"

text \<open>
  \<^verbatim>\<open>
  def fetch_dc(self, dc_id):
      url = f"https://cloud.flojoy.ai/api/v1/dcs/{dc_id}"
      response = requests.request("GET", url, headers=self.headers)
      response = json.loads(response.text)
      check_deserialize(response)
      return response
  \<close>
\<close>

definition dcs_url :: "string \<Rightarrow> string" where
  "dcs_url dc_id = ''https://cloud.flojoy.ai/api/v1/dcs/'' @ dc_id"

definition fetch_dc :: "('f, 'o) pylib \<Rightarrow> string \<Rightarrow> event list \<times> (pyexc + 'f json)" where
  "fetch_dc L dc_id =
     (case ebind (request_get L (dcs_url dc_id)) (json_loads L) of
        Inl e \<Rightarrow> ([], Inl e)
      | Inr response \<Rightarrow>
          (case check_deserialize L response of
             (out, Inl e) \<Rightarrow> (out, Inl e)
           | (out, Inr u) \<Rightarrow> (out, Inr response)))"

section \<open>Writing: create_payload\<close>

definition valid_types :: "string list" where
  "valid_types =
     [''OrderedPair'', ''OrderedTriple'', ''DataFrame'', ''Grayscale'', ''Matrix'', ''Scalar'',
      ''Image'']"

text \<open>
  \<^verbatim>\<open>json.dumps({"data": {...}}, cls=NumpyEncoder)\<close> and, for a DataFrame, the plain
  \<^verbatim>\<open>json.dumps({"data": {...}})\<close>, on the envelope with the given entries.
\<close>

definition dumps_NumpyEncoder ::
    "('f, 'o) pylib \<Rightarrow> (string \<times> ('f, 'o) pyval) list \<Rightarrow> pyexc + 'f json" where
  "dumps_NumpyEncoder L entries =
     iterencode (recursion_depth L) NumpyEncoder_default (PDict [(''data'', PDict entries)])"

definition dumps_plain ::
    "('f, 'o) pylib \<Rightarrow> (string \<times> ('f, 'o) pyval) list \<Rightarrow> pyexc + 'f json" where
  "dumps_plain L entries =
     iterencode (recursion_depth L) JSONEncoder_default (PDict [(''data'', PDict entries)])"

text \<open>\<^verbatim>\<open>data.to_json()\<close>: only an object can have the method.\<close>

fun call_to_json :: "('f, 'o) pylib \<Rightarrow> ('f, 'o) pyval \<Rightarrow> pyexc + ('f, 'o) pyval" where
  "call_to_json L (PObject obj) = to_json L obj"
| "call_to_json L v = Inl (AttributeError ''to_json'')"

text \<open>\<^verbatim>\<open>np.asarray(data)\<close>: an array is returned as it is.\<close>

fun np_asarray :: "('f, 'o) pylib \<Rightarrow> ('f, 'o) pyval \<Rightarrow> pyexc + (nat list \<times> 'f npelem list)" where
  "np_asarray L (NdArray shape buf) = Inr (shape, buf)"
| "np_asarray L v = asarray L v"

text \<open>\<^verbatim>\<open>arr.shape[i]\<close>.\<close>

definition shape_at :: "nat list \<times> 'a list \<Rightarrow> nat \<Rightarrow> pyexc + nat" where
  "shape_at arr i = (if i < length (fst arr) then Inr (fst arr ! i) else Inl IndexError)"

definition ndarray :: "nat list \<times> 'f npelem list \<Rightarrow> ('f, 'o) pyval" where
  "ndarray arr = NdArray (fst arr) (snd arr)"

text \<open>
  The first \<^verbatim>\<open>match dc_type\<close> of \<^verbatim>\<open>create_payload\<close>, which has the one case
  \<^verbatim>\<open>"OrderedPair"\<close>: what it prints, and the payload it binds (\<open>None\<close> when no case
  matches and \<^verbatim>\<open>payload\<close> stays unbound).
  \<^verbatim>\<open>
  case "OrderedPair":
      if isinstance(data, dict) and "x" in data:
          payload = json.dumps(
              {"data": {"type": "OrderedPair", "x": data["x"], "y": data["y"]}},
              cls=NumpyEncoder)
      else:
          print("For ordered pair type, data must be in"
                " dictionary form with keys 'x' and 'y'")
          raise TypeError
  \<close>
\<close>

definition ordered_pair_text :: string where
  "ordered_pair_text =
     ''For ordered pair type, data must be in dictionary form with keys 'x' and 'y'' @ [CHR 0x27]"

definition ordered_triple_text :: string where
  "ordered_triple_text =
     ''For ordered triple type, data must be in dictionary form with keys 'x', 'y', and 'z''
     @ [CHR 0x27]"

definition first_match ::
    "('f, 'o) pylib \<Rightarrow> ('f, 'o) pyval \<Rightarrow> string \<Rightarrow> event list \<times> (pyexc + 'f json option)" where
  "first_match L data dc_type =
     (if dc_type = ''OrderedPair'' then
        (case data of
           PDict d \<Rightarrow>
             if contains ''x'' d then
               ([], ebind (getitem d ''x'') (\<lambda>x.
                    ebind (getitem d ''y'') (\<lambda>y.
                    ebind (dumps_NumpyEncoder L
                             [(''type'', PStr ''OrderedPair''), (''x'', x), (''y'', y)]) (\<lambda>payload.
                    Inr (Some payload)))))
             else ([PrintText ordered_pair_text], Inl TypeError)
         | _ \<Rightarrow> ([PrintText ordered_pair_text], Inl TypeError))
      else ([], Inr None))"

text \<open>
  The second \<^verbatim>\<open>match dc_type\<close>, with the six other cases; \<open>payload\<close> is what the first
  one bound, which stays when no case matches.
  \<^verbatim>\<open>
  case "DataFrame":
      data = data.to_json()
      payload = json.dumps({"data": {"type": "DataFrame", "m": data}})
  case "Matrix":
      payload = json.dumps({"data": {"type": "Matrix", "m": data}}, cls=NumpyEncoder)
  case "Grayscale":
      payload = json.dumps({"data": {"type": "Grayscale", "m": data}}, cls=NumpyEncoder)
  case "Scalar":
      payload = json.dumps({"data": {"type": "Scalar", "c": data}}, cls=NumpyEncoder)
  case "Image":
      RGB_img = np.asarray(data)
      red_channel = RGB_img[:, :, 0]
      green_channel = RGB_img[:, :, 1]
      blue_channel = RGB_img[:, :, 2]
      if RGB_img.shape[2] == 4:
          alpha_channel = RGB_img[:, :, 3]
      else:
          alpha_channel = None
      payload = json.dumps(
          {"data": {"type": "Image", "r": red_channel, "g": green_channel,
                    "b": blue_channel, "a": alpha_channel}},
          cls=NumpyEncoder)
  \<close>
\<close>

definition second_match ::
    "('f, 'o) pylib \<Rightarrow> ('f, 'o) pyval \<Rightarrow> string \<Rightarrow> 'f json option
      \<Rightarrow> event list \<times> (pyexc + 'f json option)" where
  "second_match L data dc_type payload =
     (if dc_type = ''OrderedTriple'' then
        (case data of
           PDict d \<Rightarrow>
             if contains ''x'' d then
               ([], ebind (getitem d ''x'') (\<lambda>x.
                    ebind (getitem d ''y'') (\<lambda>y.
                    ebind (getitem d ''z'') (\<lambda>z.
                    ebind (dumps_NumpyEncoder L
                             [(''type'', PStr ''OrderedTriple''), (''x'', x), (''y'', y), (''z'', z)])
                      (\<lambda>p. Inr (Some p))))))
             else ([PrintText ordered_triple_text], Inl TypeError)
         | _ \<Rightarrow> ([PrintText ordered_triple_text], Inl TypeError))
      else if dc_type = ''DataFrame'' then
        ([], ebind (call_to_json L data) (\<lambda>data.
             ebind (dumps_plain L [(''type'', PStr ''DataFrame''), (''m'', data)]) (\<lambda>p.
             Inr (Some p))))
      else if dc_type = ''Matrix'' then
        ([], ebind (dumps_NumpyEncoder L [(''type'', PStr ''Matrix''), (''m'', data)]) (\<lambda>p.
             Inr (Some p)))
      else if dc_type = ''Grayscale'' then
        ([], ebind (dumps_NumpyEncoder L [(''type'', PStr ''Grayscale''), (''m'', data)]) (\<lambda>p.
             Inr (Some p)))
      else if dc_type = ''Scalar'' then
        ([], ebind (dumps_NumpyEncoder L [(''type'', PStr ''Scalar''), (''c'', data)]) (\<lambda>p.
             Inr (Some p)))
      else if dc_type = ''Image'' then
        ([], ebind (np_asarray L data) (\<lambda>RGB_img.
             ebind (index_axis2 RGB_img 0) (\<lambda>red_channel.
             ebind (index_axis2 RGB_img 1) (\<lambda>green_channel.
             ebind (index_axis2 RGB_img 2) (\<lambda>blue_channel.
             ebind (shape_at RGB_img 2) (\<lambda>channels.
             ebind (if channels = 4
                    then ebind (index_axis2 RGB_img 3) (\<lambda>alpha. Inr (ndarray alpha))
                    else Inr PNone) (\<lambda>alpha_channel.
             ebind (dumps_NumpyEncoder L
                      [(''type'', PStr ''Image''), (''r'', ndarray red_channel),
                       (''g'', ndarray green_channel), (''b'', ndarray blue_channel),
                       (''a'', alpha_channel)]) (\<lambda>p.
             Inr (Some p)))))))))
      else ([], Inr payload))"

text \<open>
  \<^verbatim>\<open>
  def create_payload(self, data, dc_type):
      assert (
          dc_type in self.valid_types
      ), f"Type {dc_type} not supported. Check capitals (e.g. OrderedPair)."
      match dc_type: ...
      match dc_type: ...
      return payload
  \<close>
  The payload is a JSON text; it is given by the value the text denotes.
\<close>

definition create_payload ::
    "('f, 'o) pylib \<Rightarrow> ('f, 'o) pyval \<Rightarrow> string \<Rightarrow> event list \<times> (pyexc + 'f json)" where
  "create_payload L data dc_type =
     (if dc_type \<notin> set valid_types then
        ([], Inl (AssertionError
           (''Type '' @ dc_type @ '' not supported. Check capitals (e.g. OrderedPair).'')))
      else
        (case first_match L data dc_type of
           (out1, Inl e) \<Rightarrow> (out1, Inl e)
         | (out1, Inr payload1) \<Rightarrow>
             (case second_match L data dc_type payload1 of
                (out2, Inl e) \<Rightarrow> (out1 @ out2, Inl e)
              | (out2, Inr None) \<Rightarrow> (out1 @ out2, Inl (UnboundLocalError ''payload''))
              | (out2, Inr (Some payload)) \<Rightarrow> (out1 @ out2, Inr payload))))"

section \<open>Converting: to_python\<close>

text \<open>
  \<^verbatim>\<open>pd.DataFrame(data)\<close> raises \<^verbatim>\<open>ValueError\<close> ("DataFrame constructor not properly
  called!") when \<open>data\<close> is a string or a number; the frame of a list, a dict or \<^verbatim>\<open>None\<close>
  is the library's.
\<close>

fun pd_DataFrame :: "('f, 'o) pylib \<Rightarrow> 'f json \<Rightarrow> pyexc + 'o" where
  "pd_DataFrame L (JStr s) = Inl ValueError"
| "pd_DataFrame L (JInt i) = Inl ValueError"
| "pd_DataFrame L (JFloat x) = Inl ValueError"
| "pd_DataFrame L (JBool b) = Inl ValueError"
| "pd_DataFrame L data = DataFrame_of L data"

text \<open>
  \<^verbatim>\<open>np.stack(arrays, axis=2)\<close> raises \<^verbatim>\<open>ValueError\<close> unless all arrays have the same shape.
  A list is an array of one dimension at least, and \<^verbatim>\<open>None\<close>, a number or a string is
  an array of no dimension, so a list and a value that is no list never stack.
\<close>

definition np_stack_axis2 :: "('f, 'o) pylib \<Rightarrow> 'f json list \<Rightarrow> pyexc + 'o" where
  "np_stack_axis2 L arrays =
     (if list_ex isinstance_list arrays \<and> list_ex (\<lambda>a. \<not> isinstance_list a) arrays
      then Inl ValueError
      else stack_axis2 L arrays)"

text \<open>\<^verbatim>\<open>float(v)\<close>.\<close>

fun py_float :: "('f, 'o) pylib \<Rightarrow> 'f json \<Rightarrow> pyexc + 'f" where
  "py_float L (JFloat x) = Inr x"
| "py_float L (JInt i) = float_of_int L i"
| "py_float L (JBool b) = float_of_int L (if b then 1 else 0)"
| "py_float L (JStr s) = float_of_str L s"
| "py_float L v = Inl TypeError"

text \<open>
  \<^verbatim>\<open>
  def to_python(self, dc):
      dc_type = dc["dataContainer"]["type"]
      match dc_type:
          case "OrderedPair" | "OrderedTriple":
              df = pd.DataFrame(dc["dataContainer"])
              return df.drop(columns=["type"])
          case "DataFrame" | "Matrix" | "Grayscale":
              df = pd.DataFrame(dc["dataContainer"]["m"])
              return df
          case "Scalar":
              return float(dc["dataContainer"]["c"])
          case "Image":
              image = dc["dataContainer"]
              r = image["r"]
              g = image["g"]
              b = image["b"]
              if "a" in image:
                  a = image["a"]
                  img_combined = np.stack((r, g, b, a), axis=2)
                  return Image.fromarray(np.uint8(img_combined)).convert("RGBA")
              else:
                  img_combined = np.stack((r, g, b), axis=2)
                  return Image.fromarray(np.uint8(img_combined)).convert("RGB")
  \<close>
  A function that ends without \<^verbatim>\<open>return\<close> returns \<^verbatim>\<open>None\<close>. The container
  \<^verbatim>\<open>dc["dataContainer"]\<close> is a dict once \<^verbatim>\<open>["type"]\<close> has not raised.
\<close>

definition to_python :: "('f, 'o) pylib \<Rightarrow> 'f json \<Rightarrow> pyexc + ('f, 'o) pyval" where
  "to_python L dc =
     ebind (subscript dc ''dataContainer'') (\<lambda>container.
     ebind (subscript container ''type'') (\<lambda>dc_type.
     if dc_type = JStr ''OrderedPair'' \<or> dc_type = JStr ''OrderedTriple'' then
       ebind (pd_DataFrame L container) (\<lambda>df.
       ebind (drop_columns L df [''type'']) (\<lambda>df. Inr (PObject df)))
     else if dc_type = JStr ''DataFrame'' \<or> dc_type = JStr ''Matrix''
             \<or> dc_type = JStr ''Grayscale'' then
       ebind (subscript container ''m'') (\<lambda>m.
       ebind (pd_DataFrame L m) (\<lambda>df. Inr (PObject df)))
     else if dc_type = JStr ''Scalar'' then
       ebind (subscript container ''c'') (\<lambda>c.
       ebind (py_float L c) (\<lambda>x. Inr (PFloat x)))
     else if dc_type = JStr ''Image'' then
       ebind (subscript container ''r'') (\<lambda>r.
       ebind (subscript container ''g'') (\<lambda>g.
       ebind (subscript container ''b'') (\<lambda>b.
       (case container of
          JDict image' \<Rightarrow>
            if contains ''a'' image' then
              ebind (getitem image' ''a'') (\<lambda>a.
              ebind (np_stack_axis2 L [r, g, b, a]) (\<lambda>img_combined.
              ebind (np_uint8 L img_combined) (\<lambda>u.
              ebind (Image_fromarray L u) (\<lambda>img.
              ebind (Image_convert L img ''RGBA'') (\<lambda>img. Inr (PObject img))))))
            else
              ebind (np_stack_axis2 L [r, g, b]) (\<lambda>img_combined.
              ebind (np_uint8 L img_combined) (\<lambda>u.
              ebind (Image_fromarray L u) (\<lambda>img.
              ebind (Image_convert L img ''RGB'') (\<lambda>img. Inr (PObject img)))))
        | _ \<Rightarrow> Inl TypeError))))
     else Inr PNone))"

text \<open>
  The response that carries a payload's container: the envelope \<^verbatim>\<open>{"data": ...}\<close> of a
  payload re-keyed as \<^verbatim>\<open>{"dataContainer": ...}\<close>.
\<close>

fun rekey :: "'f json \<Rightarrow> 'f json" where
  "rekey (JDict [(k, container)]) =
     (if k = ''data'' then JDict [(''dataContainer'', container)] else JDict [(k, container)])"
| "rekey v = v"

section \<open>Notions the claims are stated with\<close>

text \<open>
  \<open>nested_get v idx\<close> is \<^verbatim>\<open>v[i0][i1]...\<close> on nested lists, and \<open>flat_index shape idx\<close>
  is the row-major position of the index \<open>idx\<close> in an array of the given shape.
\<close>

fun nested_get :: "('f, 'o) pyval \<Rightarrow> nat list \<Rightarrow> ('f, 'o) pyval option" where
  "nested_get v [] = Some v"
| "nested_get (PList xs) (i # idx) = (if i < length xs then nested_get (xs ! i) idx else None)"
| "nested_get v (i # idx) = None"

fun flat_index :: "nat list \<Rightarrow> nat list \<Rightarrow> nat" where
  "flat_index (n # shape) (i # idx) = i * prod_list shape + flat_index shape idx"
| "flat_index shape idx = 0"

text \<open>
  The JSON value of an array element, and the JSON value of the 2-dimensional plane of
  channel \<open>k\<close> of an array of shape \<open>[h, w, c]\<close>: row \<open>i\<close>, column \<open>j\<close> holds the
  element at \<open>[i, j, k]\<close>.
\<close>

fun json_of_elem :: "'f npelem \<Rightarrow> 'f json" where
  "json_of_elem (EInt i) = JInt (py_int i)"
| "json_of_elem (EFloat x) = JFloat x"
| "json_of_elem (EBool b) = JBool b"

definition plane_json :: "nat \<Rightarrow> nat \<Rightarrow> nat \<Rightarrow> 'f npelem list \<Rightarrow> nat \<Rightarrow> 'f json" where
  "plane_json h w c buf k =
     JList (map (\<lambda>i. JList (map (\<lambda>j. json_of_elem (buf ! ((i * w + j) * c + k))) [0..<w])) [0..<h])"

section \<open>A library for the examples\<close>

text \<open>
  An instance of the library parameters, at which the theorems are evaluated on
  examples. Floats are real numbers. A library object is the expression that names it:
  \<open>Table text\<close> is a DataFrame whose \<^verbatim>\<open>to_json()\<close> is \<open>text\<close>, \<open>Frame data\<close> is
  \<^verbatim>\<open>pd.DataFrame(data)\<close>, and so on. The server answers every request with the text of
  \<open>served\<close>. The calls that no example makes (\<^verbatim>\<open>np.asarray\<close> of a value that is no array,
  \<^verbatim>\<open>dict\<close> of a value that is no dict, \<^verbatim>\<open>float\<close> of a string) raise.
\<close>

datatype 'f libobj =
    Table string
  | Frame "'f json"
  | Dropped "'f libobj" "string list"
  | Stacked "'f json list"
  | AsUInt8 "'f libobj"
  | FromArray "'f libobj"
  | Converted "'f libobj" string

definition example_lib :: "real json \<Rightarrow> (real, real libobj) pylib" where
  "example_lib served =
     \<lparr> recursion_depth = 1000,
       to_json = (\<lambda>obj. case obj of Table text \<Rightarrow> Inr (PStr text) | _ \<Rightarrow> Inl (AttributeError ''to_json'')),
       asarray = (\<lambda>v. Inl (OtherError ''asarray'')),
       py_dict = (\<lambda>v. None),
       float_of_int = (\<lambda>i. Inr (of_int i)),
       float_of_str = (\<lambda>s. Inl (OtherError ''float'')),
       DataFrame_of = (\<lambda>data. Inr (Frame data)),
       drop_columns = (\<lambda>df cols. Inr (Dropped df cols)),
       stack_axis2 = (\<lambda>arrays. Inr (Stacked arrays)),
       np_uint8 = (\<lambda>a. Inr (AsUInt8 a)),
       Image_fromarray = (\<lambda>a. Inr (FromArray a)),
       Image_convert = (\<lambda>img mode. Inr (Converted img mode)),
       request_get = (\<lambda>url. Inr url),
       json_loads = (\<lambda>text. Inr served) \<rparr>"

text \<open>A response with every field of \<^verbatim>\<open>DefaultModel\<close> and the given container.\<close>

definition example_response :: "(string \<times> real json) list \<Rightarrow> real json" where
  "example_response dc =
     JDict [(''ref'', JStr ''r1''), (''dataContainer'', JDict dc), (''metadata'', JDict []),
            (''workspaceId'', JStr ''w''), (''privacy'', JStr ''private''),
            (''location'', JStr ''l''), (''note'', JStr '''')]"

section \<open>Lemmas\<close>



lemma type_must_match_eq:
  "type_must_match k dc =
     (case map_of dc ''type'' of
        None \<Rightarrow> Inl (KeyError ''type'')
      | Some t \<Rightarrow> if t = JStr (kind_name k) then Inr dc
                  else Inl (AssertionError ''dataContainer type does not match.''))"
  by (simp add: type_must_match_def getitem_def py_assert_def split: option.splits)

lemma validate_field_other:
  "name \<noteq> ''dataContainer'' \<Longrightarrow> \<exists>r. validate_field L k name ft v = Inr r"
  by (simp add: validate_field_def class_validators_def dict_validator_def
      split: option.splits json.splits field_type.splits sum.splits)

lemma validate_field_dataContainer:
  "validate_field L k ''dataContainer'' DictField (Some (JDict dc)) =
     (case type_must_match k dc of
        Inl e \<Rightarrow> if field_error e then Inr (Some e) else Inl e
      | Inr dc' \<Rightarrow>
          (case keys_must_match k dc' of
             Inl e \<Rightarrow> if field_error e then Inr (Some e) else Inl e
           | Inr dc'' \<Rightarrow> Inr None))"
  by (simp add: validate_field_def class_validators_def dict_validator_def split: sum.splits)

lemma validate_fields_Cons:
  "validate_fields L k ((name, ft) # rest) input =
     (case validate_field L k name ft (map_of input name) of
        Inl e \<Rightarrow> Inl e
      | Inr r \<Rightarrow>
          (case validate_fields L k rest input of
             Inl e \<Rightarrow> Inl e
           | Inr errors \<Rightarrow> Inr ((case r of None \<Rightarrow> [] | Some e \<Rightarrow> [(name, e)]) @ errors)))"
  by (simp split: sum.splits option.splits)

lemma validate_fields_others:
  "\<forall>(name, ft) \<in> set fs. name \<noteq> ''dataContainer'' \<Longrightarrow>
   \<exists>errors. validate_fields L k fs input = Inr errors"
proof (induction fs)
  case Nil
  then show ?case by simp
next
  case (Cons f fs)
  obtain name ft where f: "f = (name, ft)" by (cases f)
  with Cons.prems have "name \<noteq> ''dataContainer''" by simp
  then obtain r where "validate_field L k name ft (map_of input name) = Inr r"
    using validate_field_other by blast
  moreover obtain errors where "validate_fields L k fs input = Inr errors"
    using Cons by auto
  ultimately show ?case unfolding f validate_fields_Cons by simp
qed

lemma validate_fields_DefaultModel:
  "\<exists>before after.
     validate_fields L k DefaultModel_fields input =
       (case validate_field L k ''dataContainer'' DictField (map_of input ''dataContainer'') of
          Inl e \<Rightarrow> Inl e
        | Inr r \<Rightarrow> Inr (before @ (case r of None \<Rightarrow> [] | Some e \<Rightarrow> [(''dataContainer'', e)]) @ after))"
proof -
  obtain r1 where r1: "validate_field L k ''ref'' StrField (map_of input ''ref'') = Inr r1"
    using validate_field_other [of "''ref''"] by fastforce
  obtain after where after:
    "validate_fields L k
       [(''metadata'', DictField), (''workspaceId'', StrField), (''privacy'', StrField),
        (''location'', StrField), (''note'', StrField)] input = Inr after"
    using validate_fields_others
      [of "[(''metadata'', DictField), (''workspaceId'', StrField), (''privacy'', StrField),
        (''location'', StrField), (''note'', StrField)]" L k input]
    by auto
  have "validate_fields L k DefaultModel_fields input =
       (case validate_field L k ''dataContainer'' DictField (map_of input ''dataContainer'') of
          Inl e \<Rightarrow> Inl e
        | Inr r \<Rightarrow> Inr ((case r1 of None \<Rightarrow> [] | Some e \<Rightarrow> [(''ref'', e)])
             @ (case r of None \<Rightarrow> [] | Some e \<Rightarrow> [(''dataContainer'', e)]) @ after))"
    unfolding DefaultModel_fields_def validate_fields_Cons [of L k "''ref''"]
      validate_fields_Cons [of L k "''dataContainer''"] r1 after
    by (simp split: sum.splits)
  then show ?thesis by blast
qed

lemma parse_obj_field_error:
  assumes "map_of input ''dataContainer'' = Some (JDict dc)"
    and "validate_field L k ''dataContainer'' DictField (Some (JDict dc)) = Inr (Some e)"
  shows "\<exists>errors. parse_obj L k (JDict input) = Inl (ValidationError errors)
            \<and> (''dataContainer'', e) \<in> set errors"
proof -
  obtain before after where
    "validate_fields L k DefaultModel_fields input = Inr (before @ [(''dataContainer'', e)] @ after)"
    using validate_fields_DefaultModel [of L k input] assms by auto
  then show ?thesis by (simp add: parse_obj_def)
qed



lemma flat_index_less: "list_all2 (<) idx shape \<Longrightarrow> flat_index shape idx < prod_list shape"
proof (induction idx shape rule: list_all2_induct)
  case Nil
  then show ?case by simp
next
  case (Cons i idx n shape)
  have "i * prod_list shape + flat_index shape idx < Suc i * prod_list shape"
    using Cons.IH by simp
  also have "\<dots> \<le> n * prod_list shape"
    using Cons.hyps(1) by (intro mult_le_mono1) simp
  finally show ?case by simp
qed

lemma chunk_length:
  assumes "length buf = n * p" and "i < n"
  shows "length (take p (drop (i * p) buf)) = p"
proof -
  have "Suc i * p \<le> n * p" using assms(2) by (intro mult_le_mono1) simp
  then show ?thesis using assms(1) by simp
qed

lemma chunk_nth:
  assumes "length buf = n * p" and "i < n" and "j < p"
  shows "take p (drop (i * p) buf) ! j = buf ! (i * p + j)"
proof -
  have "Suc i * p \<le> n * p" using assms(2) by (intro mult_le_mono1) simp
  then have "i * p + j < length buf" using assms(1,3) by simp
  then show ?thesis using assms(3) by simp
qed

lemma tolist_nested_get:
  "wf_ndarray shape buf \<Longrightarrow> list_all2 (<) idx shape \<Longrightarrow>
   nested_get (tolist shape buf :: ('f, 'o) pyval) idx = Some (item (buf ! flat_index shape idx))"
proof (induction shape arbitrary: buf idx)
  case Nil
  then obtain x where "buf = [x]"
    by (cases buf) (auto simp add: wf_ndarray_def)
  with Nil show ?case by simp
next
  case (Cons n shape)
  from Cons.prems(2) obtain i idx' where idx: "idx = i # idx'" "i < n" "list_all2 (<) idx' shape"
    by (cases idx) auto
  let ?p = "prod_list shape"
  let ?chunk = "take ?p (drop (i * ?p) buf)"
  have len: "length buf = n * ?p" using Cons.prems(1) by (simp add: wf_ndarray_def)
  have wf: "wf_ndarray shape ?chunk"
    unfolding wf_ndarray_def using chunk_length [OF len idx(2)] .
  have "nested_get (tolist shape ?chunk :: ('f, 'o) pyval) idx'
      = Some (item (?chunk ! flat_index shape idx'))"
    by (rule Cons.IH [OF wf idx(3)])
  moreover have "?chunk ! flat_index shape idx' = buf ! (i * ?p + flat_index shape idx')"
    using chunk_nth [OF len idx(2) flat_index_less [OF idx(3)]] .
  ultimately show ?case using idx by simp
qed

lemma iterencode_item: "iterencode n dflt (item e) = Inr (json_of_elem e)"
  by (cases e) simp_all

lemma iterencode_list_map:
  "(\<And>x. x \<in> set xs \<Longrightarrow> iterencode n dflt (f x) = Inr (g x)) \<Longrightarrow>
   iterencode_list n dflt (map f xs) = Inr (map g xs)"
  by (induction xs) simp_all

lemma tolist_2d:
  assumes "length buf = h * w"
  shows "tolist [h, w] buf =
     PList (map (\<lambda>i. PList (map (\<lambda>j. item (buf ! (i * w + j))) [0..<w])) [0..<h])"
proof -
  have "tolist [] (take (Suc 0) (drop j (take w (drop (i * w) buf)))) = (item (buf ! (i * w + j)) :: ('a, 'b) pyval)"
    if "i < h" "j < w" for i j
  proof -
    have l: "length (take w (drop (i * w) buf)) = w" using chunk_length [OF assms that(1)] .
    have "take (Suc 0) (drop j (take w (drop (i * w) buf))) = [take w (drop (i * w) buf) ! j]"
      using l that(2) by (simp add: take_Suc_conv_app_nth)
    then show ?thesis using chunk_nth [OF assms that] by simp
  qed
  then show ?thesis by simp
qed

lemma take1_drop: "n < length xs \<Longrightarrow> take (Suc 0) (drop n xs) = [xs ! n]"
  using Cons_nth_drop_Suc [of n xs] by (metis take0 take_Suc_Cons)

lemma concat_take1:
  "(\<And>p. p \<in> set ps \<Longrightarrow> g p < length buf) \<Longrightarrow>
   concat (map (\<lambda>p. take (Suc 0) (drop (g p) buf)) ps) = map (\<lambda>p. buf ! g p) ps"
  by (induction ps) (simp_all add: take1_drop)

lemma index_axis2_3d:
  assumes "length buf = h * w * c" and "k < c"
  shows "index_axis2 ([h, w, c], buf) k = Inr ([h, w], map (\<lambda>p. buf ! (p * c + k)) [0..<h * w])"
proof -
  have "p * c + k < length buf" if "p < h * w" for p
  proof -
    have "p * c + k < Suc p * c" using assms(2) by simp
    also have "\<dots> \<le> (h * w) * c" using that by (intro mult_le_mono1) simp
    finally show ?thesis using assms(1) by simp
  qed
  then have "concat (map (\<lambda>p. take (Suc 0) (drop (p * c + k) buf)) [0..<h * w])
      = map (\<lambda>p. buf ! (p * c + k)) [0..<h * w]"
    by (intro concat_take1) simp
  then show ?thesis using assms(2) by simp
qed

lemma encode_plane:
  assumes "length buf = h * w * c" and "k < c"
  shows "\<exists>arr. index_axis2 ([h, w, c], buf) k = Inr arr
     \<and> iterencode (Suc (Suc (Suc n))) NumpyEncoder_default (ndarray arr :: ('f, 'o) pyval)
         = Inr (plane_json h w c buf k)"
proof -
  let ?pl = "map (\<lambda>p. buf ! (p * c + k)) [0..<h * w]"
  have ix: "index_axis2 ([h, w, c], buf) k = Inr ([h, w], ?pl)"
    using index_axis2_3d [OF assms] .
  have nth: "?pl ! (i * w + j) = buf ! ((i * w + j) * c + k)" if "i < h" "j < w" for i j
  proof -
    have "i * w + j < Suc i * w" using that(2) by simp
    also have "\<dots> \<le> h * w" using that(1) by (intro mult_le_mono1) simp
    finally show ?thesis by simp
  qed
  have tl: "(tolist [h, w] ?pl :: ('f, 'o) pyval)
      = PList (map (\<lambda>i. PList (map (\<lambda>j. item (buf ! ((i * w + j) * c + k))) [0..<w])) [0..<h])"
    using nth by (simp add: tolist_2d [of ?pl h w] del: tolist.simps)
  have row: "iterencode (Suc n) NumpyEncoder_default
        (PList (map (\<lambda>j. item (buf ! ((i * w + j) * c + k))) [0..<w]) :: ('f, 'o) pyval)
      = Inr (JList (map (\<lambda>j. json_of_elem (buf ! ((i * w + j) * c + k))) [0..<w]))" for i
  proof -
    have "iterencode_list n NumpyEncoder_default
          (map (\<lambda>j. item (buf ! ((i * w + j) * c + k)) :: ('f, 'o) pyval) [0..<w])
        = Inr (map (\<lambda>j. json_of_elem (buf ! ((i * w + j) * c + k))) [0..<w])"
      by (rule iterencode_list_map) (rule iterencode_item)
    then show ?thesis by simp
  qed
  have rows: "iterencode_list (Suc n) NumpyEncoder_default
        (map (\<lambda>i. PList (map (\<lambda>j. item (buf ! ((i * w + j) * c + k))) [0..<w]) :: ('f, 'o) pyval)
           [0..<h])
      = Inr (map (\<lambda>i. JList (map (\<lambda>j. json_of_elem (buf ! ((i * w + j) * c + k))) [0..<w])) [0..<h])"
    by (rule iterencode_list_map) (rule row)
  have "iterencode (Suc (Suc n)) NumpyEncoder_default (tolist [h, w] ?pl :: ('f, 'o) pyval)
      = Inr (plane_json h w c buf k)"
    unfolding tl plane_json_def by (simp add: rows)
  then show ?thesis using ix by (simp add: ndarray_def del: tolist.simps)
qed

lemma depth_5: "5 \<le> (d :: nat) \<Longrightarrow> \<exists>n. d = Suc (Suc (Suc (Suc (Suc n))))"
proof -
  assume "5 \<le> d"
  then obtain n where "d = 5 + n" using le_Suc_ex by blast
  then have "d = Suc (Suc (Suc (Suc (Suc n))))" by simp
  then show ?thesis ..
qed

lemma depth_2: "2 \<le> (d :: nat) \<Longrightarrow> \<exists>n. d = Suc (Suc n)"
proof -
  assume "2 \<le> d"
  then obtain n where "d = 2 + n" using le_Suc_ex by blast
  then have "d = Suc (Suc n)" by simp
  then show ?thesis ..
qed

lemma Image_in_valid_types: "''Image'' \<in> set valid_types"
  by (simp add: valid_types_def)

lemma Image_payload_eq:
  "create_payload L data ''Image'' =
     (case snd (second_match L data ''Image'' None) of
        Inl e \<Rightarrow> ([], Inl e)
      | Inr None \<Rightarrow> ([], Inl (UnboundLocalError ''payload''))
      | Inr (Some payload) \<Rightarrow> ([], Inr payload))"
  by (simp add: create_payload_def Image_in_valid_types first_match_def second_match_def
      split: sum.splits option.splits)

lemma second_match_Image:
  "snd (second_match L data ''Image'' payload) =
     ebind (np_asarray L data) (\<lambda>RGB_img.
       ebind (index_axis2 RGB_img 0) (\<lambda>red_channel.
       ebind (index_axis2 RGB_img 1) (\<lambda>green_channel.
       ebind (index_axis2 RGB_img 2) (\<lambda>blue_channel.
       ebind (shape_at RGB_img 2) (\<lambda>channels.
       ebind (if channels = 4
              then ebind (index_axis2 RGB_img 3) (\<lambda>alpha. Inr (ndarray alpha))
              else Inr PNone) (\<lambda>alpha_channel.
       ebind (dumps_NumpyEncoder L
                [(''type'', PStr ''Image''), (''r'', ndarray red_channel),
                 (''g'', ndarray green_channel), (''b'', ndarray blue_channel),
                 (''a'', alpha_channel)]) (\<lambda>p.
       Inr (Some p))))))))"
  by (simp add: second_match_def)

lemma Image_payload_few_channels:
  assumes "np_asarray L data = Inr ([h, w, c], buf)" and "c < 3"
  shows "create_payload L data ''Image'' = ([], Inl IndexError)"
proof -
  from assms(2) consider "c = 0" | "c = 1" | "c = 2" by linarith
  then have "snd (second_match L data ''Image'' None) = Inl IndexError"
    unfolding second_match_Image assms(1) by cases simp_all
  then show ?thesis by (simp add: Image_payload_eq)
qed

lemma Image_payload_planes:
  assumes arr: "np_asarray L data = Inr ([h, w, c], buf)"
    and wf: "wf_ndarray [h, w, c] buf"
    and depth: "5 \<le> recursion_depth L"
    and c: "3 \<le> c"
  shows "create_payload L data ''Image'' =
     ([], Inr (JDict [(''data'', JDict
        [(''type'', JStr ''Image''), (''r'', plane_json h w c buf 0),
         (''g'', plane_json h w c buf 1), (''b'', plane_json h w c buf 2),
         (''a'', if c = 4 then plane_json h w c buf 3 else JNull)])]))"
proof -
  obtain n where D: "recursion_depth L = Suc (Suc (Suc (Suc (Suc n))))"
    using depth_5 [OF depth] ..
  have len: "length buf = h * w * c" using wf by (simp add: wf_ndarray_def)
  obtain a0 :: "nat list \<times> 'a npelem list" where a0: "index_axis2 ([h, w, c], buf) 0 = Inr a0"
    "iterencode (Suc (Suc (Suc n))) NumpyEncoder_default (ndarray a0 :: ('a, 'b) pyval) = Inr (plane_json h w c buf 0)"
    using encode_plane [OF len, of 0 n] c by auto
  obtain a1 :: "nat list \<times> 'a npelem list" where a1: "index_axis2 ([h, w, c], buf) (Suc 0) = Inr a1"
    "iterencode (Suc (Suc (Suc n))) NumpyEncoder_default (ndarray a1 :: ('a, 'b) pyval)
       = Inr (plane_json h w c buf (Suc 0))"
    using encode_plane [OF len, of "Suc 0" n] c by auto
  obtain a2 :: "nat list \<times> 'a npelem list" where a2: "index_axis2 ([h, w, c], buf) 2 = Inr a2"
    "iterencode (Suc (Suc (Suc n))) NumpyEncoder_default (ndarray a2 :: ('a, 'b) pyval) = Inr (plane_json h w c buf 2)"
    using encode_plane [OF len, of 2 n] c by auto
  have sh: "shape_at ([h, w, c], buf) 2 = Inr c" by (simp add: shape_at_def)
  show ?thesis
  proof (cases "c = 4")
    case True
    obtain a3 :: "nat list \<times> 'a npelem list" where a3: "index_axis2 ([h, w, c], buf) 3 = Inr a3"
      "iterencode (Suc (Suc (Suc n))) NumpyEncoder_default (ndarray a3 :: ('a, 'b) pyval) = Inr (plane_json h w c buf 3)"
      using encode_plane [OF len, of 3 n] True by auto
    have "snd (second_match L data ''Image'' None) = Inr (Some (JDict [(''data'', JDict
        [(''type'', JStr ''Image''), (''r'', plane_json h w c buf 0),
         (''g'', plane_json h w c buf 1), (''b'', plane_json h w c buf 2),
         (''a'', plane_json h w c buf 3)])]))"
    proof -
      have alpha: "(if c = 4 then ebind (index_axis2 ([h, w, c], buf) 3) (\<lambda>alpha. Inr (ndarray alpha))
           else Inr PNone) = Inr (ndarray a3 :: ('a, 'b) pyval)"
        using True a3(1) by (simp del: index_axis2.simps)
      show ?thesis
        unfolding second_match_Image arr
        by (simp add: a0 a1 a2 a3 sh alpha dumps_NumpyEncoder_def D del: index_axis2.simps)
    qed
    then show ?thesis using True by (simp add: Image_payload_eq)
  next
    case False
    have "snd (second_match L data ''Image'' None) = Inr (Some (JDict [(''data'', JDict
        [(''type'', JStr ''Image''), (''r'', plane_json h w c buf 0),
         (''g'', plane_json h w c buf 1), (''b'', plane_json h w c buf 2),
         (''a'', JNull)])]))"
    proof -
      have alpha: "(if c = 4 then ebind (index_axis2 ([h, w, c], buf) 3) (\<lambda>alpha. Inr (ndarray alpha))
           else Inr PNone) = Inr (PNone :: ('a, 'b) pyval)"
        using False by (simp del: index_axis2.simps)
      show ?thesis
        unfolding second_match_Image arr
        by (simp add: a0 a1 a2 sh alpha dumps_NumpyEncoder_def D del: index_axis2.simps)
    qed
    then show ?thesis using False by (simp add: Image_payload_eq)
  qed
qed

lemma create_payload_Scalar:
  assumes "2 \<le> recursion_depth L"
    and "\<And>n. iterencode n NumpyEncoder_default data = Inr j"
  shows "create_payload L data ''Scalar''
     = ([], Inr (JDict [(''data'', JDict [(''type'', JStr ''Scalar''), (''c'', j)])]))"
proof -
  obtain n where D: "recursion_depth L = Suc (Suc n)" using depth_2 [OF assms(1)] ..
  show ?thesis
    by (simp add: create_payload_def valid_types_def first_match_def second_match_def
        dumps_NumpyEncoder_def D assms(2))
qed

lemma create_payload_Matrix:
  assumes "recursion_depth L = Suc (Suc n)"
    and "iterencode n NumpyEncoder_default data = Inr j"
  shows "create_payload L data ''Matrix''
     = ([], Inr (JDict [(''data'', JDict [(''type'', JStr ''Matrix''), (''m'', j)])]))"
  by (simp add: create_payload_def valid_types_def first_match_def second_match_def
      dumps_NumpyEncoder_def assms)

lemma create_payload_DataFrame:
  assumes "2 \<le> recursion_depth L"
    and "to_json L obj = Inr (PStr text)"
  shows "create_payload L (PObject obj) ''DataFrame''
     = ([], Inr (JDict [(''data'', JDict [(''type'', JStr ''DataFrame''), (''m'', JStr text)])]))"
proof -
  obtain n where D: "recursion_depth L = Suc (Suc n)" using depth_2 [OF assms(1)] ..
  show ?thesis
    by (simp add: create_payload_def valid_types_def first_match_def second_match_def
        dumps_plain_def D assms(2))
qed

lemma round_trip_Matrix_example:
  assumes "5 \<le> recursion_depth L"
  shows "\<exists>payload.
      create_payload L (PList [PList [PInt 1, PInt 2], PList [PInt 3, PInt 4]]) ''Matrix''
        = ([], Inr payload)
      \<and> to_python L (rekey payload)
        = ebind (DataFrame_of L (JList [JList [JInt 1, JInt 2], JList [JInt 3, JInt 4]]))
            (\<lambda>df. Inr (PObject df))"
proof -
  obtain n where D: "recursion_depth L = Suc (Suc (Suc (Suc (Suc n))))"
    using depth_5 [OF assms] ..
  have "create_payload L (PList [PList [PInt 1, PInt 2], PList [PInt 3, PInt 4]]) ''Matrix''
      = ([], Inr (JDict [(''data'', JDict [(''type'', JStr ''Matrix''),
           (''m'', JList [JList [JInt 1, JInt 2], JList [JInt 3, JInt 4]])])]))"
    by (rule create_payload_Matrix [OF D]) simp
  then show ?thesis by (simp add: to_python_def getitem_def)
qed

lemma round_trip_OrderedPair_example:
  assumes "5 \<le> recursion_depth L"
  shows "\<exists>payload.
      create_payload L
          (PDict [(''x'', PList [PInt 1, PInt 2, PInt 3]), (''y'', PList [PInt 4, PInt 5, PInt 6])])
          ''OrderedPair''
        = ([], Inr payload)
      \<and> to_python L (rekey payload)
        = ebind (DataFrame_of L (JDict [(''type'', JStr ''OrderedPair''),
                   (''x'', JList [JInt 1, JInt 2, JInt 3]), (''y'', JList [JInt 4, JInt 5, JInt 6])]))
            (\<lambda>df. ebind (drop_columns L df [''type'']) (\<lambda>df. Inr (PObject df)))"
proof -
  obtain n where D: "recursion_depth L = Suc (Suc (Suc (Suc (Suc n))))"
    using depth_5 [OF assms] ..
  have "create_payload L
          (PDict [(''x'', PList [PInt 1, PInt 2, PInt 3]), (''y'', PList [PInt 4, PInt 5, PInt 6])])
          ''OrderedPair''
      = ([], Inr (JDict [(''data'', JDict [(''type'', JStr ''OrderedPair''),
           (''x'', JList [JInt 1, JInt 2, JInt 3]), (''y'', JList [JInt 4, JInt 5, JInt 6])])]))"
    by (simp add: create_payload_def valid_types_def first_match_def second_match_def
        dumps_NumpyEncoder_def contains_def getitem_def D)
  then show ?thesis by (simp add: to_python_def getitem_def)
qed

section \<open>The claims\<close>

text \<open>
  C7. For every payload whose declared kind tag differs from the kind it is validated
  against, validation fails with the type-mismatch error: \<^verbatim>\<open>type_must_match\<close> of the
  model raises the \<^verbatim>\<open>AssertionError\<close> "dataContainer type does not match.", and
  \<^verbatim>\<open>parse_obj\<close> of that model on any response that carries the payload raises a
  \<^verbatim>\<open>ValidationError\<close> that holds this error for the field \<^verbatim>\<open>dataContainer\<close>, whatever
  the other fields of the payload and of the response are.
\<close>

theorem type_must_match_rejects:
  assumes "map_of dc ''type'' = Some t" and "t \<noteq> JStr (kind_name k)"
  shows "type_must_match k dc = Inl (AssertionError ''dataContainer type does not match.'')
    \<and> (map_of response ''dataContainer'' = Some (JDict dc) \<longrightarrow>
        (\<exists>errors. parse_obj L k (JDict response) = Inl (ValidationError errors)
           \<and> (''dataContainer'', AssertionError ''dataContainer type does not match.'') \<in> set errors))"
proof -
  have tm: "type_must_match k dc = Inl (AssertionError ''dataContainer type does not match.'')"
    using assms by (simp add: type_must_match_eq)
  then have "validate_field L k ''dataContainer'' DictField (Some (JDict dc))
      = Inr (Some (AssertionError ''dataContainer type does not match.''))"
    by (simp add: validate_field_dataContainer)
  then show ?thesis using tm parse_obj_field_error [of response dc L k] by blast
qed

theorem type_must_match_rejects_witness:
  "type_must_match OrderedPair
      [(''type'', JStr ''OrderedTriple''), (''x'', JList [JInt 1]), (''y'', JList [JInt 2]),
       (''z'', JList [JInt 3 :: real json])]
     = Inl (AssertionError ''dataContainer type does not match.'')
   \<and> parse_obj (example_lib JNull) OrderedPair
        (example_response [(''type'', JStr ''OrderedTriple''), (''x'', JList [JInt 1]),
           (''y'', JList [JInt 2]), (''z'', JList [JInt 3])])
     = Inl (ValidationError [(''dataContainer'', AssertionError ''dataContainer type does not match.'')])"
  using type_must_match_rejects [of "[(''type'', JStr ''OrderedTriple''), (''x'', JList [JInt 1]), (''y'', JList [JInt 2]),
       (''z'', JList [JInt 3 :: real json])]" "JStr ''OrderedTriple''" OrderedPair]
  by (simp add: example_response_def parse_obj_def DefaultModel_fields_def validate_field_def
      class_validators_def dict_validator_def type_must_match_eq)

text \<open>
  C8. Validating a Scalar payload whose \<^verbatim>\<open>"c"\<close> field is not a single number fails with
  the shape error that names the key: when \<^verbatim>\<open>dc["c"]\<close> is neither a \<^verbatim>\<open>float\<close> nor an \<^verbatim>\<open>int\<close>
  (for \<^verbatim>\<open>isinstance\<close> a \<^verbatim>\<open>bool\<close> is an \<^verbatim>\<open>int\<close>), \<^verbatim>\<open>ScalarModel.keys_must_match\<close> raises the
  \<^verbatim>\<open>AssertionError\<close> '"c" dataset is not a float or int', and \<^verbatim>\<open>ScalarModel.parse_obj\<close>
  reports it for the field \<^verbatim>\<open>dataContainer\<close>; when it is a \<^verbatim>\<open>float\<close> or an \<^verbatim>\<open>int\<close> the
  check passes and returns the payload.
\<close>

theorem ScalarModel_keys_must_match:
  assumes "map_of dc ''c'' = Some c"
  shows "keys_must_match Scalar dc =
           (if isinstance_float c \<or> isinstance_int c then Inr dc
            else Inl (AssertionError ''\"c\" dataset is not a float or int''))
    \<and> (\<not> isinstance_float c \<and> \<not> isinstance_int c
         \<and> map_of dc ''type'' = Some (JStr ''Scalar'')
         \<and> map_of response ''dataContainer'' = Some (JDict dc) \<longrightarrow>
        (\<exists>errors. parse_obj L Scalar (JDict response) = Inl (ValidationError errors)
           \<and> (''dataContainer'', AssertionError ''\"c\" dataset is not a float or int'') \<in> set errors))"
proof -
  have km: "keys_must_match Scalar dc =
           (if isinstance_float c \<or> isinstance_int c then Inr dc
            else Inl (AssertionError ''\"c\" dataset is not a float or int''))"
    using assms by (simp add: assert_in_def contains_def getitem_def py_assert_def)
  have "\<exists>errors. parse_obj L Scalar (JDict response) = Inl (ValidationError errors)
           \<and> (''dataContainer'', AssertionError ''\"c\" dataset is not a float or int'') \<in> set errors"
    if "\<not> isinstance_float c" "\<not> isinstance_int c" "map_of dc ''type'' = Some (JStr ''Scalar'')"
      "map_of response ''dataContainer'' = Some (JDict dc)"
  proof -
    have "validate_field L Scalar ''dataContainer'' DictField (Some (JDict dc))
        = Inr (Some (AssertionError ''\"c\" dataset is not a float or int''))"
      using that km by (simp add: validate_field_dataContainer type_must_match_eq)
    then show ?thesis using parse_obj_field_error [of response dc L Scalar] that(4) by blast
  qed
  then show ?thesis using km by blast
qed

theorem ScalarModel_keys_must_match_witness:
  "keys_must_match Scalar [(''type'', JStr ''Scalar''), (''c'', JStr ''notanumber'' :: real json)]
     = Inl (AssertionError ''\"c\" dataset is not a float or int'')
   \<and> parse_obj (example_lib JNull) Scalar
        (example_response [(''type'', JStr ''Scalar''), (''c'', JStr ''notanumber'')])
     = Inl (ValidationError [(''dataContainer'', AssertionError ''\"c\" dataset is not a float or int'')])
   \<and> keys_must_match Scalar [(''type'', JStr ''Scalar''), (''c'', JFloat (3.14 :: real))]
     = Inr [(''type'', JStr ''Scalar''), (''c'', JFloat 3.14)]
   \<and> keys_must_match Scalar [(''type'', JStr ''Scalar''), (''c'', JInt 3 :: real json)]
     = Inr [(''type'', JStr ''Scalar''), (''c'', JInt 3)]"
  using ScalarModel_keys_must_match
    [of "[(''type'', JStr ''Scalar''), (''c'', JStr ''notanumber'' :: real json)]" "JStr ''notanumber''"]
    ScalarModel_keys_must_match
    [of "[(''type'', JStr ''Scalar''), (''c'', JFloat (3.14 :: real))]" "JFloat 3.14"]
    ScalarModel_keys_must_match
    [of "[(''type'', JStr ''Scalar''), (''c'', JInt 3 :: real json)]" "JInt 3"]
  by (simp add: example_response_def parse_obj_def DefaultModel_fields_def validate_field_def
      class_validators_def dict_validator_def type_must_match_eq assert_in_def contains_def
      getitem_def py_assert_def)

text \<open>
  C10. For every decoded response whose \<^verbatim>\<open>dataContainer\<close> type tag is not one of the
  seven kinds, \<^verbatim>\<open>check_deserialize\<close> matches no case: it calls no \<^verbatim>\<open>parse_obj\<close>, prints
  nothing and raises nothing, and \<^verbatim>\<open>fetch_dc\<close> returns the response as decoded.
\<close>

theorem check_deserialize_unknown_kind:
  assumes "subscript response ''dataContainer'' = Inr container"
    and "subscript container ''type'' = Inr dc_type"
    and "\<forall>k. dc_type \<noteq> JStr (kind_name k)"
  shows "check_deserialize L response = ([], Inr ())
    \<and> (request_get L (dcs_url dc_id) = Inr text
         \<and> json_loads L text = Inr response \<longrightarrow>
       fetch_dc L dc_id = ([], Inr response))"
proof -
  have "dc_type \<noteq> JStr (kind_name OrderedPair)" "dc_type \<noteq> JStr (kind_name OrderedTriple)"
    "dc_type \<noteq> JStr (kind_name DataFrame)" "dc_type \<noteq> JStr (kind_name Matrix)"
    "dc_type \<noteq> JStr (kind_name Grayscale)" "dc_type \<noteq> JStr (kind_name Scalar)"
    "dc_type \<noteq> JStr (kind_name Image)"
    using assms(3) by blast+
  then have "match_kind dc_type = None" by (simp add: match_kind_def)
  then have cd: "check_deserialize L response = ([], Inr ())"
    using assms(1,2) by (simp add: check_deserialize_def)
  then show ?thesis by (simp add: fetch_dc_def)
qed

theorem check_deserialize_unknown_kind_witness:
  "check_deserialize (example_lib (JDict [(''dataContainer'', JDict [(''type'', JStr ''Vector'')])]))
      (JDict [(''dataContainer'', JDict [(''type'', JStr ''Vector'')])]) = ([], Inr ())
   \<and> fetch_dc (example_lib (JDict [(''dataContainer'', JDict [(''type'', JStr ''Vector'')])])) ''42''
      = ([], Inr (JDict [(''dataContainer'', JDict [(''type'', JStr ''Vector'')])]))"
proof -
  have "\<forall>k. (JStr ''Vector'' :: real json) \<noteq> JStr (kind_name k)"
  proof
    fix k show "(JStr ''Vector'' :: real json) \<noteq> JStr (kind_name k)" by (cases k) simp_all
  qed
  then show ?thesis
    using check_deserialize_unknown_kind
      [of "JDict [(''dataContainer'', JDict [(''type'', JStr ''Vector'')])]"
        "JDict [(''type'', JStr ''Vector'')]" "JStr ''Vector''"
        "example_lib (JDict [(''dataContainer'', JDict [(''type'', JStr ''Vector'')])])" "''42''"
        "dcs_url ''42''"]
    by (simp add: getitem_def example_lib_def)
qed



text \<open>
  C6. For every container whose type tag is not one of the seven kinds, \<^verbatim>\<open>to_python\<close>
  matches no case and falls through: it produces no value (it returns \<^verbatim>\<open>None\<close>, and
  raises nothing), so the missing result is what tells the caller of the unknown kind.
\<close>

theorem to_python_unknown_kind:
  assumes "subscript dc ''dataContainer'' = Inr container"
    and "subscript container ''type'' = Inr dc_type"
    and "\<forall>k. dc_type \<noteq> JStr (kind_name k)"
  shows "to_python L dc = Inr PNone"
proof -
  have "dc_type \<noteq> JStr (kind_name OrderedPair)" "dc_type \<noteq> JStr (kind_name OrderedTriple)"
    "dc_type \<noteq> JStr (kind_name DataFrame)" "dc_type \<noteq> JStr (kind_name Matrix)"
    "dc_type \<noteq> JStr (kind_name Grayscale)" "dc_type \<noteq> JStr (kind_name Scalar)"
    "dc_type \<noteq> JStr (kind_name Image)"
    using assms(3) by blast+
  then show ?thesis using assms(1,2) by (simp add: to_python_def)
qed

theorem to_python_unknown_kind_witness:
  "to_python (example_lib JNull) (JDict [(''dataContainer'', JDict [(''type'', JStr ''Vector''), (''v'', JList [JInt 1])])])
     = Inr PNone"
proof -
  have "\<forall>k. (JStr ''Vector'' :: real json) \<noteq> JStr (kind_name k)"
  proof
    fix k show "(JStr ''Vector'' :: real json) \<noteq> JStr (kind_name k)" by (cases k) simp_all
  qed
  then show ?thesis
    using to_python_unknown_kind
      [of "JDict [(''dataContainer'', JDict [(''type'', JStr ''Vector''), (''v'', JList [JInt 1])])]"
        "JDict [(''type'', JStr ''Vector''), (''v'', JList [JInt 1])]" "JStr ''Vector''"
        "example_lib JNull"]
    by (simp add: getitem_def)
qed

text \<open>
  C4. For every kind string that is not one of the seven kinds and every input value,
  \<^verbatim>\<open>create_payload\<close> fails with the \<^verbatim>\<open>AssertionError\<close> of its first statement
  ("Type ... not supported."): the result is the same for every input and every
  library, so nothing of the input has been read or encoded.
\<close>

theorem create_payload_unsupported_kind:
  assumes "\<forall>k. dc_type \<noteq> kind_name k"
  shows "create_payload L data dc_type =
           ([], Inl (AssertionError
              (''Type '' @ dc_type @ '' not supported. Check capitals (e.g. OrderedPair).'')))"
proof -
  have "dc_type \<noteq> kind_name OrderedPair" "dc_type \<noteq> kind_name OrderedTriple"
    "dc_type \<noteq> kind_name DataFrame" "dc_type \<noteq> kind_name Matrix"
    "dc_type \<noteq> kind_name Grayscale" "dc_type \<noteq> kind_name Scalar"
    "dc_type \<noteq> kind_name Image"
    using assms by blast+
  then have "dc_type \<notin> set valid_types" by (simp add: valid_types_def)
  then show ?thesis by (simp add: create_payload_def)
qed

theorem create_payload_unsupported_kind_witness:
  "create_payload (example_lib JNull) (PObject (Table ''{}'')) ''UnknownKind''
     = ([], Inl (AssertionError ''Type UnknownKind not supported. Check capitals (e.g. OrderedPair).''))"
proof -
  have "\<forall>k. ''UnknownKind'' \<noteq> kind_name k"
  proof
    fix k show "''UnknownKind'' \<noteq> kind_name k" by (cases k) simp_all
  qed
  then show ?thesis
    using create_payload_unsupported_kind [of "''UnknownKind''" "example_lib JNull" "PObject (Table ''{}'')"]
    by simp
qed

text \<open>
  C5. For every input that numpy reads as a pixel array of shape \<open>[h, w, c]\<close>,
  \<^verbatim>\<open>create_payload(data, "Image")\<close> splits it into 2-dimensional planes in the fixed
  order \<^verbatim>\<open>"r"\<close> = channel 0, \<^verbatim>\<open>"g"\<close> = channel 1, \<^verbatim>\<open>"b"\<close> = channel 2; the entry \<^verbatim>\<open>"a"\<close>
  is the plane of channel 3 when the input has 4 channels and \<^verbatim>\<open>null\<close> otherwise (the
  key \<^verbatim>\<open>"a"\<close> itself is always written); and with fewer than 3 channels the call fails
  with \<^verbatim>\<open>IndexError\<close>, the shape error of the indexing.
\<close>

theorem create_payload_Image:
  assumes "np_asarray L data = Inr ([h, w, c], buf)"
    and "wf_ndarray [h, w, c] buf"
    and "5 \<le> recursion_depth L"
  shows "create_payload L data ''Image'' =
     (if c < 3 then ([], Inl IndexError)
      else ([], Inr (JDict [(''data'', JDict
        [(''type'', JStr ''Image''), (''r'', plane_json h w c buf 0),
         (''g'', plane_json h w c buf 1), (''b'', plane_json h w c buf 2),
         (''a'', if c = 4 then plane_json h w c buf 3 else JNull)])])))"
proof (cases "c < 3")
  case True
  then show ?thesis using Image_payload_few_channels [OF assms(1)] by simp
next
  case False
  then have "3 \<le> c" by simp
  then show ?thesis using False Image_payload_planes [OF assms] by simp
qed

theorem create_payload_Image_witness:
  "create_payload (example_lib JNull)
      (NdArray [1, 2, 3] [EInt (UInt8 10), EInt (UInt8 20), EInt (UInt8 30),
                          EInt (UInt8 40), EInt (UInt8 50), EInt (UInt8 60)]) ''Image''
     = ([], Inr (JDict [(''data'', JDict
         [(''type'', JStr ''Image''), (''r'', JList [JList [JInt 10, JInt 40]]),
          (''g'', JList [JList [JInt 20, JInt 50]]), (''b'', JList [JList [JInt 30, JInt 60]]),
          (''a'', JNull)])]))
   \<and> create_payload (example_lib JNull)
      (NdArray [1, 1, 4] [EInt (UInt8 1), EInt (UInt8 2), EInt (UInt8 3), EInt (UInt8 255)]) ''Image''
     = ([], Inr (JDict [(''data'', JDict
         [(''type'', JStr ''Image''), (''r'', JList [JList [JInt 1]]),
          (''g'', JList [JList [JInt 2]]), (''b'', JList [JList [JInt 3]]),
          (''a'', JList [JList [JInt 255]])])]))
   \<and> create_payload (example_lib JNull)
      (NdArray [1, 1, 2] [EInt (UInt8 1), EInt (UInt8 2)]) ''Image''
     = ([], Inl IndexError)"
  using create_payload_Image [of "example_lib JNull"
      "NdArray [1, 2, 3] [EInt (UInt8 10), EInt (UInt8 20), EInt (UInt8 30),
                          EInt (UInt8 40), EInt (UInt8 50), EInt (UInt8 60)]" 1 2 3
      "[EInt (UInt8 10), EInt (UInt8 20), EInt (UInt8 30),
                          EInt (UInt8 40), EInt (UInt8 50), EInt (UInt8 60)]"]
    create_payload_Image [of "example_lib JNull"
      "NdArray [1, 1, 4] [EInt (UInt8 1), EInt (UInt8 2), EInt (UInt8 3), EInt (UInt8 255)]" 1 1 4
      "[EInt (UInt8 1), EInt (UInt8 2), EInt (UInt8 3), EInt (UInt8 255)]"]
    create_payload_Image [of "example_lib JNull"
      "NdArray [1, 1, 2] [EInt (UInt8 1), EInt (UInt8 2)]" 1 1 2
      "[EInt (UInt8 1), EInt (UInt8 2)]"]
  by (simp add: wf_ndarray_def example_lib_def plane_json_def upt_rec)

text \<open>
  C9. \<^verbatim>\<open>NumpyEncoder.default\<close> maps every numpy integer to the plain \<^verbatim>\<open>int\<close> of its value,
  every numpy floating-point value to a plain \<^verbatim>\<open>float\<close>, and every array to nested
  lists in row-major order: an array of shape \<open>n # shape\<close> gives a list of \<open>n\<close>
  entries, and the entry at a valid index \<open>idx\<close> is the element at the row-major
  position of \<open>idx\<close> in the buffer. The 2x2 array of the integers 1..4 gives
  \<^verbatim>\<open>[[1, 2], [3, 4]]\<close> of plain integers, and that is what the encoder writes. Every
  other object goes to \<^verbatim>\<open>JSONEncoder.default\<close>, which raises \<^verbatim>\<open>TypeError\<close>.
\<close>

theorem NumpyEncoder_default_encodes:
  "NumpyEncoder_default (NpInteger i :: ('f, 'o) pyval) = Inr (PInt (py_int i))
   \<and> NumpyEncoder_default (NpFloating x :: ('f, 'o) pyval) = Inr (PFloat x)
   \<and> NumpyEncoder_default (NpFloat64 x :: ('f, 'o) pyval) = Inr (PFloat x)
   \<and> (wf_ndarray shape buf \<and> list_all2 (<) idx shape \<longrightarrow>
        (\<exists>v :: ('f, 'o) pyval. NumpyEncoder_default (NdArray shape buf) = Inr v
           \<and> nested_get v idx = Some (item (buf ! flat_index shape idx))))
   \<and> (\<exists>rows :: ('f, 'o) pyval list. NumpyEncoder_default (NdArray (n # shape) buf) = Inr (PList rows)
           \<and> length rows = n)
   \<and> NumpyEncoder_default
        (NdArray [2, 2] [EInt (Int64 1), EInt (Int64 2), EInt (Int64 3), EInt (Int64 4)]
           :: ('f, 'o) pyval)
      = Inr (PList [PList [PInt 1, PInt 2], PList [PInt 3, PInt 4]])
   \<and> iterencode 3 NumpyEncoder_default
        (NdArray [2, 2] [EInt (Int64 1), EInt (Int64 2), EInt (Int64 3), EInt (Int64 4)]
           :: ('f, 'o) pyval)
      = Inr (JList [JList [JInt 1, JInt 2], JList [JInt 3, JInt 4]])
   \<and> ((\<forall>i. obj \<noteq> NpInteger i) \<and> (\<forall>x. obj \<noteq> NpFloating x) \<and> (\<forall>x. obj \<noteq> NpFloat64 x)
         \<and> (\<forall>shape buf. obj \<noteq> NdArray shape buf) \<longrightarrow>
        NumpyEncoder_default (obj :: ('f, 'o) pyval) = JSONEncoder_default obj
        \<and> JSONEncoder_default obj = Inl TypeError)"
proof -
  have arr: "NumpyEncoder_default
        (NdArray [2, 2] [EInt (Int64 1), EInt (Int64 2), EInt (Int64 3), EInt (Int64 4)]
           :: ('f, 'o) pyval)
      = Inr (PList [PList [PInt 1, PInt 2], PList [PInt 3, PInt 4]])"
    by (simp add: upt_rec)
  have enc: "iterencode 3 NumpyEncoder_default
        (NdArray [2, 2] [EInt (Int64 1), EInt (Int64 2), EInt (Int64 3), EInt (Int64 4)]
           :: ('f, 'o) pyval)
      = Inr (JList [JList [JInt 1, JInt 2], JList [JInt 3, JInt 4]])"
    by (simp add: upt_rec numeral_3_eq_3)
  have c1: "NumpyEncoder_default (NpInteger i :: ('f, 'o) pyval) = Inr (PInt (py_int i))"
    by simp
  have c2: "NumpyEncoder_default (NpFloating x :: ('f, 'o) pyval) = Inr (PFloat x)"
    by simp
  have c2': "NumpyEncoder_default (NpFloat64 x :: ('f, 'o) pyval) = Inr (PFloat x)"
    by simp
  have c3: "wf_ndarray shape buf \<and> list_all2 (<) idx shape \<longrightarrow>
        (\<exists>v :: ('f, 'o) pyval. NumpyEncoder_default (NdArray shape buf) = Inr v
           \<and> nested_get v idx = Some (item (buf ! flat_index shape idx)))"
  proof
    assume a: "wf_ndarray shape buf \<and> list_all2 (<) idx shape"
    have "nested_get (tolist shape buf :: ('f, 'o) pyval) idx
        = Some (item (buf ! flat_index shape idx))"
      by (rule tolist_nested_get) (use a in simp_all)
    then show "\<exists>v :: ('f, 'o) pyval. NumpyEncoder_default (NdArray shape buf) = Inr v
           \<and> nested_get v idx = Some (item (buf ! flat_index shape idx))"
      by (simp del: tolist.simps(3))
  qed
  have c4: "\<exists>rows :: ('f, 'o) pyval list.
        NumpyEncoder_default (NdArray (n # shape) buf) = Inr (PList rows) \<and> length rows = n"
    by simp
  have c7: "(\<forall>i. obj \<noteq> NpInteger i) \<and> (\<forall>x. obj \<noteq> NpFloating x) \<and> (\<forall>x. obj \<noteq> NpFloat64 x)
         \<and> (\<forall>shape buf. obj \<noteq> NdArray shape buf) \<longrightarrow>
        NumpyEncoder_default (obj :: ('f, 'o) pyval) = JSONEncoder_default obj
        \<and> JSONEncoder_default obj = Inl TypeError"
    by (cases obj) (simp_all add: JSONEncoder_default_def)
  show ?thesis
    by (intro conjI c1 c2 c2' c3 c4 arr enc c7)
qed

theorem NumpyEncoder_default_encodes_witness:
  "NumpyEncoder_default (NpInteger (Int32 (-7)) :: (real, real libobj) pyval) = Inr (PInt (-7))
   \<and> NumpyEncoder_default (NpInteger (UInt8 200) :: (real, real libobj) pyval) = Inr (PInt 200)
   \<and> NumpyEncoder_default (NpFloating 1.5 :: (real, real libobj) pyval) = Inr (PFloat 1.5)
   \<and> NumpyEncoder_default (NpFloat64 1.5 :: (real, real libobj) pyval) = Inr (PFloat 1.5)
   \<and> (\<exists>v :: (real, real libobj) pyval.
         NumpyEncoder_default
           (NdArray [2, 3] [EInt (Int64 1), EInt (Int64 2), EInt (Int64 3),
                            EInt (Int64 4), EInt (Int64 5), EInt (Int64 6)]) = Inr v
         \<and> nested_get v [1, 2] = Some (PInt 6))
   \<and> NumpyEncoder_default (PObject (Table ''{}'') :: (real, real libobj) pyval) = Inl TypeError"
  using NumpyEncoder_default_encodes
    [where ?'f = real and ?'o = "real libobj",
      of "Int32 (-7)" "1.5" "[2, 3]"
      "[EInt (Int64 1), EInt (Int64 2), EInt (Int64 3), EInt (Int64 4), EInt (Int64 5), EInt (Int64 6)]"
      "[1, 2]" 2 "PObject (Table ''{}'')"]
  by (simp add: wf_ndarray_def JSONEncoder_default_def upt_rec)

text \<open>
  C3. \<^verbatim>\<open>create_payload\<close> does not validate what it builds: there are kinds and inputs
  for which it succeeds with a payload whose container the validators of that kind
  reject. For \<^verbatim>\<open>"Scalar"\<close> and the string \<^verbatim>\<open>"notanumber"\<close> the payload passes
  \<^verbatim>\<open>type_must_match\<close> and fails \<^verbatim>\<open>keys_must_match\<close>, so \<^verbatim>\<open>ScalarModel.parse_obj\<close> fails on
  every response that carries it; for \<^verbatim>\<open>"Matrix"\<close> and the number 7 the field \<^verbatim>\<open>"m"\<close> is
  no list; and for \<^verbatim>\<open>"DataFrame"\<close> the field \<^verbatim>\<open>"m"\<close> is the string that \<^verbatim>\<open>to_json()\<close>
  returns, not a mapping.
\<close>

theorem create_payload_output_not_validated:
  fixes L :: "('f, 'o) pylib"
  assumes "2 \<le> recursion_depth L"
  shows "create_payload L (PStr ''notanumber'') ''Scalar''
       = ([], Inr (JDict [(''data'', JDict [(''type'', JStr ''Scalar''), (''c'', JStr ''notanumber'')])]))
    \<and> type_must_match Scalar [(''type'', JStr ''Scalar''), (''c'', JStr ''notanumber'' :: 'f json)]
       = Inr [(''type'', JStr ''Scalar''), (''c'', JStr ''notanumber'')]
    \<and> keys_must_match Scalar [(''type'', JStr ''Scalar''), (''c'', JStr ''notanumber'' :: 'f json)]
       = Inl (AssertionError ''\"c\" dataset is not a float or int'')
    \<and> (map_of response ''dataContainer''
           = Some (JDict [(''type'', JStr ''Scalar''), (''c'', JStr ''notanumber'')]) \<longrightarrow>
        (\<exists>errors. parse_obj L Scalar (JDict response) = Inl (ValidationError errors)
           \<and> (''dataContainer'', AssertionError ''\"c\" dataset is not a float or int'') \<in> set errors))
    \<and> create_payload L (PInt 7) ''Matrix''
       = ([], Inr (JDict [(''data'', JDict [(''type'', JStr ''Matrix''), (''m'', JInt 7)])]))
    \<and> keys_must_match Matrix [(''type'', JStr ''Matrix''), (''m'', JInt 7 :: 'f json)]
       = Inl (AssertionError ''\"m\" dataset is not a list'')
    \<and> (to_json L obj = Inr (PStr text) \<longrightarrow>
         create_payload L (PObject obj) ''DataFrame''
           = ([], Inr (JDict [(''data'', JDict [(''type'', JStr ''DataFrame''), (''m'', JStr text)])]))
         \<and> keys_must_match DataFrame [(''type'', JStr ''DataFrame''), (''m'', JStr text :: 'f json)]
           = Inl (AssertionError ''\"m\" dataset is not a list, type: <class 'str'>''))"
proof -
  let ?dc = "[(''type'', JStr ''Scalar''), (''c'', JStr ''notanumber'' :: 'f json)]"
  obtain n where D: "recursion_depth L = Suc (Suc n)" using depth_2 [OF assms] ..
  have s1: "create_payload L (PStr ''notanumber'') ''Scalar''
       = ([], Inr (JDict [(''data'', JDict ?dc)]))"
    by (rule create_payload_Scalar [OF assms]) simp
  have s2: "type_must_match Scalar ?dc = Inr ?dc"
    by (simp add: type_must_match_eq)
  have s3: "keys_must_match Scalar ?dc = Inl (AssertionError ''\"c\" dataset is not a float or int'')"
    by (simp add: assert_in_def contains_def getitem_def py_assert_def)
  have s4: "map_of response ''dataContainer'' = Some (JDict ?dc) \<longrightarrow>
        (\<exists>errors. parse_obj L Scalar (JDict response) = Inl (ValidationError errors)
           \<and> (''dataContainer'', AssertionError ''\"c\" dataset is not a float or int'') \<in> set errors)"
  proof
    assume r: "map_of response ''dataContainer'' = Some (JDict ?dc)"
    have "validate_field L Scalar ''dataContainer'' DictField (Some (JDict ?dc))
        = Inr (Some (AssertionError ''\"c\" dataset is not a float or int''))"
      unfolding validate_field_dataContainer s2
      by (simp add: assert_in_def contains_def getitem_def py_assert_def)
    then show "\<exists>errors. parse_obj L Scalar (JDict response) = Inl (ValidationError errors)
           \<and> (''dataContainer'', AssertionError ''\"c\" dataset is not a float or int'') \<in> set errors"
      using parse_obj_field_error [OF r] by blast
  qed
  have m1: "create_payload L (PInt 7) ''Matrix''
       = ([], Inr (JDict [(''data'', JDict [(''type'', JStr ''Matrix''), (''m'', JInt 7)])]))"
    by (rule create_payload_Matrix [OF D]) simp
  have m2: "keys_must_match Matrix [(''type'', JStr ''Matrix''), (''m'', JInt 7 :: 'f json)]
       = Inl (AssertionError ''\"m\" dataset is not a list'')"
    by (simp add: assert_in_def assert_list_def contains_def getitem_def py_assert_def)
  have d: "to_json L obj = Inr (PStr text) \<longrightarrow>
         create_payload L (PObject obj) ''DataFrame''
           = ([], Inr (JDict [(''data'', JDict [(''type'', JStr ''DataFrame''), (''m'', JStr text)])]))
         \<and> keys_must_match DataFrame [(''type'', JStr ''DataFrame''), (''m'', JStr text :: 'f json)]
           = Inl (AssertionError ''\"m\" dataset is not a list, type: <class 'str'>'')"
    using create_payload_DataFrame [OF assms, of obj "text"]
    by (simp add: assert_in_def contains_def getitem_def py_assert_def)
  show ?thesis by (intro conjI s1 s2 s3 s4 m1 m2 d)
qed

theorem create_payload_output_not_validated_witness:
  "create_payload (example_lib JNull) (PStr ''notanumber'') ''Scalar''
       = ([], Inr (JDict [(''data'', JDict [(''type'', JStr ''Scalar''), (''c'', JStr ''notanumber'')])]))
   \<and> parse_obj (example_lib JNull) Scalar
        (example_response [(''type'', JStr ''Scalar''), (''c'', JStr ''notanumber'')])
       = Inl (ValidationError [(''dataContainer'', AssertionError ''\"c\" dataset is not a float or int'')])
   \<and> create_payload (example_lib JNull) (PObject (Table ''{\"a\":{\"0\":1}}'')) ''DataFrame''
       = ([], Inr (JDict [(''data'', JDict [(''type'', JStr ''DataFrame''),
             (''m'', JStr ''{\"a\":{\"0\":1}}'')])]))
   \<and> keys_must_match DataFrame
        [(''type'', JStr ''DataFrame''), (''m'', JStr ''{\"a\":{\"0\":1}}'' :: real json)]
       = Inl (AssertionError ''\"m\" dataset is not a list, type: <class 'str'>'')"
proof -
  have d: "2 \<le> recursion_depth (example_lib JNull)" by (simp add: example_lib_def)
  have t: "to_json (example_lib JNull) (Table ''{\"a\":{\"0\":1}}'') = Inr (PStr ''{\"a\":{\"0\":1}}'')"
    by (simp add: example_lib_def)
  have p: "parse_obj (example_lib JNull) Scalar
        (example_response [(''type'', JStr ''Scalar''), (''c'', JStr ''notanumber'')])
       = Inl (ValidationError [(''dataContainer'', AssertionError ''\"c\" dataset is not a float or int'')])"
    by (simp add: example_response_def parse_obj_def DefaultModel_fields_def validate_field_def
      class_validators_def dict_validator_def type_must_match_eq assert_in_def contains_def
      getitem_def py_assert_def)
  show ?thesis
    using create_payload_output_not_validated
      [OF d, of "[]" "Table ''{\"a\":{\"0\":1}}''" "''{\"a\":{\"0\":1}}''"] t p
    by (simp add: assert_in_def contains_def getitem_def py_assert_def)
qed

text \<open>
  C2. The round trip \<^verbatim>\<open>to_python\<close> after \<^verbatim>\<open>create_payload\<close> (the envelope \<^verbatim>\<open>"data"\<close>
  re-keyed as \<^verbatim>\<open>"dataContainer"\<close>) does not recover the input for every kind. For
  \<^verbatim>\<open>"DataFrame"\<close> the payload holds the JSON text of the frame as a string in \<^verbatim>\<open>"m"\<close>, and
  \<^verbatim>\<open>pd.DataFrame\<close> of a string raises \<^verbatim>\<open>ValueError\<close>. For \<^verbatim>\<open>"Image"\<close> and a 3-channel
  array the payload holds \<^verbatim>\<open>"a": null\<close>, so \<^verbatim>\<open>"a" in image\<close> holds, \<^verbatim>\<open>to_python\<close> stacks
  four planes of which one is \<^verbatim>\<open>None\<close>, and \<^verbatim>\<open>np.stack\<close> raises \<^verbatim>\<open>ValueError\<close>. For
  \<^verbatim>\<open>"Scalar"\<close> and a float the round trip returns the float; for the matrix
  \<^verbatim>\<open>[[1, 2], [3, 4]]\<close> it returns the frame that pandas builds from these rows, and for
  the ordered pair \<^verbatim>\<open>{x: [1, 2, 3], y: [4, 5, 6]}\<close> the frame of the columns \<^verbatim>\<open>type\<close>, \<^verbatim>\<open>x\<close>
  and \<^verbatim>\<open>y\<close> without the column \<^verbatim>\<open>type\<close>.
\<close>

theorem round_trip_DataFrame_and_RGB_Image:
  "(2 \<le> recursion_depth L \<and> to_json L obj = Inr (PStr text) \<longrightarrow>
      (\<exists>payload. create_payload L (PObject obj) ''DataFrame'' = ([], Inr payload)
         \<and> subscript payload ''data''
              = Inr (JDict [(''type'', JStr ''DataFrame''), (''m'', JStr text)])
         \<and> to_python L (rekey payload) = Inl ValueError))
   \<and> (5 \<le> recursion_depth L \<and> np_asarray L data = Inr ([h, w, 3], buf)
        \<and> wf_ndarray [h, w, 3] buf \<longrightarrow>
      (\<exists>payload container. create_payload L data ''Image'' = ([], Inr payload)
         \<and> subscript payload ''data'' = Inr (JDict container)
         \<and> map_of container ''a'' = Some JNull
         \<and> to_python L (rekey payload) = Inl ValueError))
   \<and> (2 \<le> recursion_depth L \<longrightarrow>
      (\<exists>payload. create_payload L (PFloat x) ''Scalar'' = ([], Inr payload)
         \<and> to_python L (rekey payload) = Inr (PFloat x)))
   \<and> (5 \<le> recursion_depth L \<longrightarrow>
      (\<exists>payload.
         create_payload L (PList [PList [PInt 1, PInt 2], PList [PInt 3, PInt 4]]) ''Matrix''
           = ([], Inr payload)
         \<and> to_python L (rekey payload)
           = ebind (DataFrame_of L (JList [JList [JInt 1, JInt 2], JList [JInt 3, JInt 4]]))
               (\<lambda>df. Inr (PObject df))))
   \<and> (5 \<le> recursion_depth L \<longrightarrow>
      (\<exists>payload.
         create_payload L
             (PDict [(''x'', PList [PInt 1, PInt 2, PInt 3]), (''y'', PList [PInt 4, PInt 5, PInt 6])])
             ''OrderedPair''
           = ([], Inr payload)
         \<and> to_python L (rekey payload)
           = ebind (DataFrame_of L (JDict [(''type'', JStr ''OrderedPair''),
                      (''x'', JList [JInt 1, JInt 2, JInt 3]), (''y'', JList [JInt 4, JInt 5, JInt 6])]))
               (\<lambda>df. ebind (drop_columns L df [''type'']) (\<lambda>df. Inr (PObject df)))))"
proof -
  have df: "\<exists>payload. create_payload L (PObject obj) ''DataFrame'' = ([], Inr payload)
         \<and> subscript payload ''data''
              = Inr (JDict [(''type'', JStr ''DataFrame''), (''m'', JStr text)])
         \<and> to_python L (rekey payload) = Inl ValueError"
    if "2 \<le> recursion_depth L" "to_json L obj = Inr (PStr text)"
    using create_payload_DataFrame [OF that]
    by (simp add: to_python_def getitem_def)
  have img: "\<exists>payload container. create_payload L data ''Image'' = ([], Inr payload)
         \<and> subscript payload ''data'' = Inr (JDict container)
         \<and> map_of container ''a'' = Some JNull
         \<and> to_python L (rekey payload) = Inl ValueError"
    if "5 \<le> recursion_depth L" "np_asarray L data = Inr ([h, w, 3], buf)" "wf_ndarray [h, w, 3] buf"
    using Image_payload_planes [OF that(2,3,1)]
    by (simp add: to_python_def getitem_def contains_def np_stack_axis2_def plane_json_def)
  have sc: "\<exists>payload. create_payload L (PFloat x) ''Scalar'' = ([], Inr payload)
         \<and> to_python L (rekey payload) = Inr (PFloat x)"
    if "2 \<le> recursion_depth L"
  proof -
    have "create_payload L (PFloat x) ''Scalar''
       = ([], Inr (JDict [(''data'', JDict [(''type'', JStr ''Scalar''), (''c'', JFloat x)])]))"
      by (rule create_payload_Scalar [OF that]) simp
    then show ?thesis by (simp add: to_python_def getitem_def)
  qed
  show ?thesis
    using df img sc round_trip_Matrix_example [of L] round_trip_OrderedPair_example [of L]
    by blast
qed

theorem round_trip_DataFrame_and_RGB_Image_witness:
  "(\<exists>payload. create_payload (example_lib JNull) (PObject (Table ''{\"a\":{\"0\":1}}'')) ''DataFrame''
         = ([], Inr payload)
       \<and> to_python (example_lib JNull) (rekey payload) = Inl ValueError)
   \<and> (\<exists>payload. create_payload (example_lib JNull)
          (NdArray [1, 1, 3] [EInt (UInt8 1), EInt (UInt8 2), EInt (UInt8 3)]) ''Image''
         = ([], Inr payload)
       \<and> to_python (example_lib JNull) (rekey payload) = Inl ValueError)
   \<and> (\<exists>payload. create_payload (example_lib JNull) (PFloat 3.14) ''Scalar'' = ([], Inr payload)
       \<and> to_python (example_lib JNull) (rekey payload) = Inr (PFloat 3.14))
   \<and> (\<exists>payload.
         create_payload (example_lib JNull)
             (PList [PList [PInt 1, PInt 2], PList [PInt 3, PInt 4]]) ''Matrix''
           = ([], Inr payload)
         \<and> to_python (example_lib JNull) (rekey payload)
           = Inr (PObject (Frame (JList [JList [JInt 1, JInt 2], JList [JInt 3, JInt 4]]))))
   \<and> (\<exists>payload.
         create_payload (example_lib JNull)
             (PDict [(''x'', PList [PInt 1, PInt 2, PInt 3]), (''y'', PList [PInt 4, PInt 5, PInt 6])])
             ''OrderedPair''
           = ([], Inr payload)
         \<and> to_python (example_lib JNull) (rekey payload)
           = Inr (PObject (Dropped (Frame (JDict [(''type'', JStr ''OrderedPair''),
                (''x'', JList [JInt 1, JInt 2, JInt 3]), (''y'', JList [JInt 4, JInt 5, JInt 6])]))
                [''type''])))"
proof -
  have d: "2 \<le> recursion_depth (example_lib JNull)" "5 \<le> recursion_depth (example_lib JNull)"
    by (simp_all add: example_lib_def)
  have t: "to_json (example_lib JNull) (Table ''{\"a\":{\"0\":1}}'') = Inr (PStr ''{\"a\":{\"0\":1}}'')"
    by (simp add: example_lib_def)
  have a: "np_asarray (example_lib JNull)
      (NdArray [1, 1, 3] [EInt (UInt8 1), EInt (UInt8 2), EInt (UInt8 3)])
      = Inr ([1, 1, 3], [EInt (UInt8 1), EInt (UInt8 2), EInt (UInt8 3)])"
    "wf_ndarray [1, 1, 3] [EInt (UInt8 1), EInt (UInt8 2), EInt (UInt8 3) :: real npelem]"
    by (simp_all add: wf_ndarray_def)
  have l: "DataFrame_of (example_lib JNull) = (\<lambda>data. Inr (Frame data))"
    "drop_columns (example_lib JNull) = (\<lambda>df cols. Inr (Dropped df cols))"
    by (simp_all add: example_lib_def)
  show ?thesis
    using round_trip_DataFrame_and_RGB_Image
      [of "example_lib JNull" "Table ''{\"a\":{\"0\":1}}''" "''{\"a\":{\"0\":1}}''"
        "NdArray [1, 1, 3] [EInt (UInt8 1), EInt (UInt8 2), EInt (UInt8 3)]" 1 1
        "[EInt (UInt8 1), EInt (UInt8 2), EInt (UInt8 3)]" "3.14"] d t a
    by (auto simp add: l)
qed

end
